theory Spec2Isabelle
  imports Main "HOL-Library.AList"
begin

section \<open>JSON values and the Python operations the code applies to them\<close>

text \<open>
  The store keeps one JSON document, and every value the code handles (the document, the
  request bodies, device records, telemetry records) is what \<^verbatim>\<open>json.load\<close> returns:
  \<^verbatim>\<open>None\<close>, a bool, a number, a \<^verbatim>\<open>str\<close>, a \<^verbatim>\<open>list\<close> or a \<^verbatim>\<open>dict\<close> with
  \<^verbatim>\<open>str\<close> keys. A \<^verbatim>\<open>dict\<close> keeps insertion order, so it is an association list.
  A \<^verbatim>\<open>float\<close> is a sign, a mantissa and an exponent (the number \<open>\<plusminus> m \<cdot> 2\<^sup>e\<close>; the sign
  tells \<^verbatim>\<open>-0.0\<close> from \<^verbatim>\<open>0.0\<close>), an infinity with its sign, or NaN.
\<close>

datatype pyfloat = Finite bool nat int | Infinity bool | NaN

datatype json =
    JNull
  | JBool bool
  | JInt int
  | JFloat pyfloat
  | JStr string
  | JArr "json list"
  | JObj "(string \<times> json) list"

text \<open>
  The exceptions that can leave the modelled functions. \<^verbatim>\<open>json.JSONDecodeError\<close> and
  \<^verbatim>\<open>UnicodeDecodeError\<close> are subclasses of \<^verbatim>\<open>ValueError\<close>, which matters to an
  \<^verbatim>\<open>except ValueError\<close>; the others are not.
\<close>

datatype error =
    JSONDecodeError
  | UnicodeDecodeError
  | RecursionError
  | FileNotFoundError
  | ValueError
  | KeyError
  | IndexError
  | TypeError
  | AttributeError

definition is_ValueError :: "error \<Rightarrow> bool" where
  "is_ValueError e = (e = ValueError \<or> e = JSONDecodeError \<or> e = UnicodeDecodeError)"

text \<open>Python's truth value of a JSON value (\<^verbatim>\<open>if not x\<close>, \<^verbatim>\<open>x or y\<close>).\<close>

fun truthy :: "json \<Rightarrow> bool" where
  "truthy JNull = False"
| "truthy (JBool b) = b"
| "truthy (JInt n) = (n \<noteq> 0)"
| "truthy (JFloat f) = (case f of Finite s m e \<Rightarrow> m \<noteq> 0 | _ \<Rightarrow> True)"
| "truthy (JStr s) = (s \<noteq> [])"
| "truthy (JArr xs) = (xs \<noteq> [])"
| "truthy (JObj kvs) = (kvs \<noteq> [])"

text \<open>\<^verbatim>\<open>c[k]\<close> for a \<^verbatim>\<open>str\<close> key: \<^verbatim>\<open>KeyError\<close> on a dict without the key,
  \<^verbatim>\<open>TypeError\<close> on every other value (a list or a str wants integer indices, the rest
  is not subscriptable).\<close>

fun getitem :: "json \<Rightarrow> string \<Rightarrow> error + json" where
  "getitem (JObj kvs) k = (case map_of kvs k of None \<Rightarrow> Inl KeyError | Some v \<Rightarrow> Inr v)"
| "getitem _ k = Inl TypeError"

text \<open>\<^verbatim>\<open>c.get(k, dflt)\<close> for a \<^verbatim>\<open>str\<close> key; \<^verbatim>\<open>c.get(k)\<close> is \<open>dict_get c k JNull\<close>.
  Only a dict has the method.\<close>

fun dict_get :: "json \<Rightarrow> string \<Rightarrow> json \<Rightarrow> error + json" where
  "dict_get (JObj kvs) k dflt = Inr (case map_of kvs k of None \<Rightarrow> dflt | Some v \<Rightarrow> v)"
| "dict_get _ k dflt = Inl AttributeError"

text \<open>\<^verbatim>\<open>c.get(key)\<close> where the key is itself a JSON value taken from a request: a list
  or a dict is unhashable, and a number or a bool is never equal to one of the \<^verbatim>\<open>str\<close>
  keys.\<close>

fun dict_get_key :: "json \<Rightarrow> json \<Rightarrow> error + json" where
  "dict_get_key (JObj kvs) (JStr s) = Inr (case map_of kvs s of None \<Rightarrow> JNull | Some v \<Rightarrow> v)"
| "dict_get_key (JObj kvs) (JArr xs) = Inl TypeError"
| "dict_get_key (JObj kvs) (JObj m) = Inl TypeError"
| "dict_get_key (JObj kvs) _ = Inr JNull"
| "dict_get_key _ _ = Inl AttributeError"

text \<open>\<^verbatim>\<open>k in s\<close> for two strings: \<open>k\<close> occurs in \<open>s\<close> as a contiguous piece.\<close>

definition str_contains :: "string \<Rightarrow> string \<Rightarrow> bool" where
  "str_contains k s = list_ex (\<lambda>i. take (length k) (drop i s) = k) [0..<Suc (length s)]"

text \<open>\<^verbatim>\<open>k in c\<close> for a \<^verbatim>\<open>str\<close> \<open>k\<close>: key membership in a dict, element membership in a
  list, substring test in a str, \<^verbatim>\<open>TypeError\<close> on what is not iterable.\<close>

fun contains :: "json \<Rightarrow> string \<Rightarrow> error + bool" where
  "contains (JObj kvs) k = Inr (map_of kvs k \<noteq> None)"
| "contains (JArr xs) k = Inr (JStr k \<in> set xs)"
| "contains (JStr s) k = Inr (str_contains k s)"
| "contains _ k = Inl TypeError"

text \<open>\<^verbatim>\<open>c[k] = v\<close> for a \<^verbatim>\<open>str\<close> key: a dict replaces the value in place or appends
  the new key at the end (\<open>AList.update\<close> does both); nothing else takes a \<^verbatim>\<open>str\<close> key.\<close>

fun setitem :: "json \<Rightarrow> string \<Rightarrow> json \<Rightarrow> error + json" where
  "setitem (JObj kvs) k v = Inr (JObj (AList.update k v kvs))"
| "setitem _ k v = Inl TypeError"

text \<open>\<^verbatim>\<open>c.setdefault(k, v)\<close>, as the container afterwards: an existing key keeps its
  value.\<close>

fun setdefault :: "json \<Rightarrow> string \<Rightarrow> json \<Rightarrow> error + json" where
  "setdefault (JObj kvs) k v =
     Inr (JObj (case map_of kvs k of None \<Rightarrow> kvs @ [(k, v)] | Some w \<Rightarrow> kvs))"
| "setdefault _ k v = Inl AttributeError"

text \<open>\<^verbatim>\<open>c.append(v)\<close>, as the container afterwards.\<close>

fun append_item :: "json \<Rightarrow> json \<Rightarrow> error + json" where
  "append_item (JArr xs) v = Inr (JArr (xs @ [v]))"
| "append_item _ v = Inl AttributeError"

text \<open>
  The code mutates the members of the loaded document in place
  (\<^verbatim>\<open>d["devices"][device_id] = ...\<close>). With explicit state that is: the document with
  the member \<open>k\<close> replaced by its mutated value. It is only used where \<open>getitem d k\<close>
  has succeeded, so \<open>d\<close> is a dict that has the key.
\<close>

fun with_member :: "json \<Rightarrow> string \<Rightarrow> json \<Rightarrow> json" where
  "with_member (JObj kvs) k v = JObj (AList.update k v kvs)"
| "with_member d k v = d"

text \<open>\<^verbatim>\<open>xs[k:]\<close>: a negative start counts from the end, and both ends are clipped.\<close>

definition slice_from :: "int \<Rightarrow> 'a list \<Rightarrow> 'a list" where
  "slice_from k xs =
     (let n = int (length xs);
          start = (if k < 0 then max (n + k) 0 else min k n)
      in drop (nat start) xs)"

text \<open>\<^verbatim>\<open>items[-limit:]\<close>: a list or a str is sliced. A dict raises (\<^verbatim>\<open>TypeError\<close>
  before Python 3.12, \<^verbatim>\<open>KeyError\<close> from 3.12 on; no caller tells them apart), and the
  rest is not subscriptable.\<close>

fun last_items :: "json \<Rightarrow> int \<Rightarrow> error + json" where
  "last_items (JArr xs) limit = Inr (JArr (slice_from (- limit) xs))"
| "last_items (JStr s) limit = Inr (JStr (slice_from (- limit) s))"
| "last_items _ limit = Inl TypeError"

text \<open>What \<^verbatim>\<open>for it in items\<close> iterates over: the elements of a list, the one-character
  strings of a str, the keys of a dict.\<close>

fun iterate :: "json \<Rightarrow> error + json list" where
  "iterate (JArr xs) = Inr xs"
| "iterate (JStr s) = Inr (map (\<lambda>c. JStr [c]) s)"
| "iterate (JObj kvs) = Inr (map (\<lambda>kv. JStr (fst kv)) kvs)"
| "iterate _ = Inl TypeError"

subsection \<open>An id that is not a string\<close>

text \<open>
  \<^verbatim>\<open>storage.register_device\<close> takes the \<^verbatim>\<open>device_id\<close> as the request gave it, and
  a request can give any JSON value. The operations of the mutator on such a value \<open>x\<close>
  follow. They need Python's \<^verbatim>\<open>==\<close> between two JSON values: bools, ints and floats
  are compared as numbers (\<^verbatim>\<open>True == 1 == 1.0\<close>, exactly, and NaN equals nothing), lists
  element by element, dicts as mappings whatever the order of their keys.
\<close>

definition float_num :: "bool \<Rightarrow> nat \<Rightarrow> int" where
  "float_num s m = (if s then - int m else int m)"

fun float_eq_int :: "pyfloat \<Rightarrow> int \<Rightarrow> bool" where
  "float_eq_int (Finite s m e) n =
     (if 0 \<le> e then float_num s m * 2 ^ nat e = n else float_num s m = n * 2 ^ nat (- e))"
| "float_eq_int _ n = False"

fun float_eq :: "pyfloat \<Rightarrow> pyfloat \<Rightarrow> bool" where
  "float_eq (Finite s m e) (Finite t k f) =
     (float_num s m * 2 ^ nat (e - min e f) = float_num t k * 2 ^ nat (f - min e f))"
| "float_eq (Infinity s) (Infinity t) = (s = t)"
| "float_eq _ _ = False"

definition bool_int :: "bool \<Rightarrow> int" where
  "bool_int b = (if b then 1 else 0)"

fun py_eq :: "json \<Rightarrow> json \<Rightarrow> bool"
  and py_eq_list :: "json list \<Rightarrow> json list \<Rightarrow> bool"
  and py_eq_items :: "(string \<times> json) list \<Rightarrow> (string \<times> json) list \<Rightarrow> bool" where
  "py_eq JNull b = (b = JNull)"
| "py_eq (JBool p) b =
     (case b of JBool q \<Rightarrow> p = q | JInt n \<Rightarrow> bool_int p = n
      | JFloat f \<Rightarrow> float_eq_int f (bool_int p) | _ \<Rightarrow> False)"
| "py_eq (JInt n) b =
     (case b of JBool q \<Rightarrow> n = bool_int q | JInt k \<Rightarrow> n = k
      | JFloat f \<Rightarrow> float_eq_int f n | _ \<Rightarrow> False)"
| "py_eq (JFloat f) b =
     (case b of JBool q \<Rightarrow> float_eq_int f (bool_int q) | JInt k \<Rightarrow> float_eq_int f k
      | JFloat g \<Rightarrow> float_eq f g | _ \<Rightarrow> False)"
| "py_eq (JStr s) b = (b = JStr s)"
| "py_eq (JArr xs) b = (case b of JArr ys \<Rightarrow> py_eq_list xs ys | _ \<Rightarrow> False)"
| "py_eq (JObj kvs) b =
     (case b of JObj m \<Rightarrow> length kvs = length m \<and> py_eq_items kvs m | _ \<Rightarrow> False)"
| "py_eq_list [] ys = (ys = [])"
| "py_eq_list (x # xs) ys =
     (case ys of [] \<Rightarrow> False | y # ys' \<Rightarrow> py_eq x y \<and> py_eq_list xs ys')"
| "py_eq_items [] m = True"
| "py_eq_items ((k, v) # kvs) m =
     ((case map_of m k of None \<Rightarrow> False | Some w \<Rightarrow> py_eq v w) \<and> py_eq_items kvs m)"

text \<open>\<^verbatim>\<open>x in c\<close>: a dict hashes \<open>x\<close> (a list or a dict cannot be hashed) and has only
  \<^verbatim>\<open>str\<close> keys; a list compares its elements with \<open>x\<close>; a str wants a str.\<close>

fun contains_value :: "json \<Rightarrow> json \<Rightarrow> error + bool" where
  "contains_value (JObj kvs) x =
     (case x of JStr k \<Rightarrow> Inr (map_of kvs k \<noteq> None)
      | JArr ys \<Rightarrow> Inl TypeError | JObj m \<Rightarrow> Inl TypeError | _ \<Rightarrow> Inr False)"
| "contains_value (JArr xs) x = Inr (list_ex (\<lambda>e. py_eq e x) xs)"
| "contains_value (JStr s) x =
     (case x of JStr k \<Rightarrow> Inr (str_contains k s) | _ \<Rightarrow> Inl TypeError)"
| "contains_value _ x = Inl TypeError"

text \<open>
  In memory a dict takes a bool, an int or a float as a key just as it takes a str.
  \<^verbatim>\<open>json.dump\<close> then writes such a key as a text: \<^verbatim>\<open>true\<close>, \<^verbatim>\<open>false\<close>,
  \<^verbatim>\<open>null\<close>, the decimal digits of an int, and for a float what \<^verbatim>\<open>float.__repr__\<close>
  returns (the parameter \<open>float_repr\<close>) or \<^verbatim>\<open>NaN\<close>, \<^verbatim>\<open>Infinity\<close>, \<^verbatim>\<open>-Infinity\<close>.
  \<open>key_text\<close> is that text, and \<open>None\<close> for a list or a dict, which is no key at
  all.
\<close>

definition digit_char :: "nat \<Rightarrow> char" where
  "digit_char n = ''0123456789'' ! (n mod 10)"

function dec_nat :: "nat \<Rightarrow> string" where
  "dec_nat n = (if n < 10 then [digit_char n] else dec_nat (n div 10) @ [digit_char n])"
  by pat_completeness auto
termination
  by (relation "measure id") auto

definition dec_int :: "int \<Rightarrow> string" where
  "dec_int i = (if i < 0 then CHR ''-'' # dec_nat (nat (- i)) else dec_nat (nat i))"

fun key_text :: "(pyfloat \<Rightarrow> string) \<Rightarrow> json \<Rightarrow> string option" where
  "key_text float_repr (JStr s) = Some s"
| "key_text float_repr JNull = Some ''null''"
| "key_text float_repr (JBool b) = Some (if b then ''true'' else ''false'')"
| "key_text float_repr (JInt n) = Some (dec_int n)"
| "key_text float_repr (JFloat f) =
     Some (case f of NaN \<Rightarrow> ''NaN''
           | Infinity s \<Rightarrow> (if s then ''-Infinity'' else ''Infinity'')
           | Finite s m e \<Rightarrow> float_repr f)"
| "key_text float_repr (JArr xs) = None"
| "key_text float_repr (JObj kvs) = None"

text \<open>
  The store's dicts come from \<^verbatim>\<open>json.load\<close>, so their keys are texts, and a key that
  is not a str is new to the dict that takes it. The mutator does not read that dict
  again, \<^verbatim>\<open>json.dump\<close> writes the new key last, as its text, and \<^verbatim>\<open>json.load\<close>
  keeps for a text that occurs twice the place of the first and the value of the last
  occurrence. The two operations below return the container as the written file holds it,
  that is as every later read finds it: the value is stored under the text of the key
  (\<open>AList.update\<close>).

  \<^verbatim>\<open>c[x] = v\<close>: a list takes an int (a bool is one) as an index, from the end when it
  is negative, and \<^verbatim>\<open>IndexError\<close> is raised outside of the list.
\<close>

fun setitem_value :: "(pyfloat \<Rightarrow> string) \<Rightarrow> json \<Rightarrow> json \<Rightarrow> json \<Rightarrow> error + json" where
  "setitem_value float_repr (JObj kvs) x v =
     (case key_text float_repr x of
        None \<Rightarrow> Inl TypeError
      | Some k \<Rightarrow> Inr (JObj (AList.update k v kvs)))"
| "setitem_value float_repr (JArr xs) x v =
     (case (case x of JInt n \<Rightarrow> Some n | JBool b \<Rightarrow> Some (bool_int b) | _ \<Rightarrow> None) of
        None \<Rightarrow> Inl TypeError
      | Some n \<Rightarrow>
          (let i = (if n < 0 then n + int (length xs) else n)
           in if 0 \<le> i \<and> i < int (length xs) then Inr (JArr (xs[nat i := v]))
              else Inl IndexError))"
| "setitem_value float_repr _ x v = Inl TypeError"

text \<open>\<^verbatim>\<open>c.setdefault(x, v)\<close>: a str key that is there keeps its value; a key that is
  not a str is new, and is written over the text it shares.\<close>

fun setdefault_value :: "(pyfloat \<Rightarrow> string) \<Rightarrow> json \<Rightarrow> json \<Rightarrow> json \<Rightarrow> error + json" where
  "setdefault_value float_repr (JObj kvs) x v =
     (case x of
        JStr k \<Rightarrow> setdefault (JObj kvs) k v
      | _ \<Rightarrow>
          (case key_text float_repr x of
             None \<Rightarrow> Inl TypeError
           | Some k \<Rightarrow> Inr (JObj (AList.update k v kvs))))"
| "setdefault_value float_repr _ x v = Inl AttributeError"

section \<open>storage.py: the file-backed store\<close>

text \<open>
  The state is the backing file \<^verbatim>\<open>data.json\<close>: absent, or present with a content.
  Opening the file as UTF-8 text and \<^verbatim>\<open>json.load\<close> are the standard library's; the
  content is kept as what they make of it: the value \<^verbatim>\<open>json.load\<close> returns
  (\<open>Parsed\<close>), or the exception that reading or parsing the content raises
  (\<open>Raises\<close>: \<^verbatim>\<open>UnicodeDecodeError\<close> for bytes that are not UTF-8,
  \<^verbatim>\<open>JSONDecodeError\<close> for a text that is not JSON, \<^verbatim>\<open>RecursionError\<close> for one
  nested too deep, \<^verbatim>\<open>ValueError\<close> for an integer of too many digits). A value
  written by \<^verbatim>\<open>json.dump\<close> is read back unchanged. Failures of the operating system
  (a full disk, missing permissions) are not modelled.

  \<^verbatim>\<open>with _lock:\<close> serialises the callers of the two functions that take it. The model
  is sequential: each function runs from the file state it is given to the file state it
  returns, which is what the lock gives every caller.
\<close>

datatype content = Raises error | Parsed json

type_synonym datafile = "content option"

definition initial :: json where
  "initial = JObj [(''devices'', JObj []), (''telemetry'', JObj [])]"

definition ensure_datafile :: "datafile \<Rightarrow> datafile" where
  "ensure_datafile fs = (case fs of None \<Rightarrow> Some (Parsed initial) | Some c \<Rightarrow> fs)"

definition read_all :: "datafile \<Rightarrow> (error + json) \<times> datafile" where
  "read_all fs =
     (let fs1 = ensure_datafile fs
      in case fs1 of
           None \<Rightarrow> (Inl FileNotFoundError, fs1)
         | Some (Raises e) \<Rightarrow> (Inl e, fs1)
         | Some (Parsed j) \<Rightarrow> (Inr j, fs1))"

definition write_atomic :: "json \<Rightarrow> datafile \<Rightarrow> datafile" where
  "write_atomic data fs = Some (Parsed data)"

definition with_lock_read :: "datafile \<Rightarrow> (error + json) \<times> datafile" where
  "with_lock_read fs = read_all fs"

text \<open>
  A mutator gets the loaded document. It raises, or it returns a pair: what the Python
  function returns (\<open>None\<close> when it returns nothing) and the loaded document as its
  in-place changes have left it.
\<close>

type_synonym mutator = "json \<Rightarrow> error + (json option \<times> json)"

definition with_lock_write :: "mutator \<Rightarrow> datafile \<Rightarrow> (error + json) \<times> datafile" where
  "with_lock_write mutator_fn fs =
     (case read_all fs of
        (Inl e, fs1) \<Rightarrow> (Inl e, fs1)
      | (Inr data, fs1) \<Rightarrow>
          (case mutator_fn data of
             Inl e \<Rightarrow> (Inl e, fs1)
           | Inr (result, data') \<Rightarrow>
               (let to_write = (case result of Some r \<Rightarrow> r | None \<Rightarrow> data')
                in (Inr to_write, write_atomic to_write fs1))))"

text \<open>
  \<open>now\<close> is the text \<^verbatim>\<open>datetime.utcnow().isoformat()\<close> returns when the mutator runs.
\<close>

definition register_device_mut :: "string \<Rightarrow> json \<Rightarrow> string \<Rightarrow> mutator" where
  "register_device_mut device_id meta now d =
     (case getitem d ''devices'' of
        Inl e \<Rightarrow> Inl e
      | Inr devs \<Rightarrow>
     (case contains devs device_id of
        Inl e \<Rightarrow> Inl e
      | Inr True \<Rightarrow> Inl ValueError
      | Inr False \<Rightarrow>
     (case setitem devs device_id
             (JObj [(''meta'', meta), (''registered_at'', JStr (now @ ''Z''))]) of
        Inl e \<Rightarrow> Inl e
      | Inr devs' \<Rightarrow>
     (let d1 = with_member d ''devices'' devs'
      in case getitem d1 ''telemetry'' of
        Inl e \<Rightarrow> Inl e
      | Inr tel \<Rightarrow>
     (case setdefault tel device_id (JArr []) of
        Inl e \<Rightarrow> Inl e
      | Inr tel' \<Rightarrow>
     (let d2 = with_member d1 ''telemetry'' tel'
      in Inr (Some d2, d2)))))))"

definition register_device ::
  "string \<Rightarrow> json \<Rightarrow> string \<Rightarrow> datafile \<Rightarrow> (error + json) \<times> datafile" where
  "register_device device_id meta now fs =
     with_lock_write (register_device_mut device_id meta now) fs"

text \<open>
  The same function for a \<open>device_id\<close> of any JSON type. The document it returns and
  writes is the document as the file holds it after the write (in memory, the new key of
  the two mappings is the \<open>device_id\<close> itself where that is not a str). For a str it
  is \<open>register_device\<close>.
\<close>

definition register_device_mut_any ::
  "(pyfloat \<Rightarrow> string) \<Rightarrow> json \<Rightarrow> json \<Rightarrow> string \<Rightarrow> mutator" where
  "register_device_mut_any float_repr device_id meta now d =
     (case getitem d ''devices'' of
        Inl e \<Rightarrow> Inl e
      | Inr devs \<Rightarrow>
     (case contains_value devs device_id of
        Inl e \<Rightarrow> Inl e
      | Inr True \<Rightarrow> Inl ValueError
      | Inr False \<Rightarrow>
     (case setitem_value float_repr devs device_id
             (JObj [(''meta'', meta), (''registered_at'', JStr (now @ ''Z''))]) of
        Inl e \<Rightarrow> Inl e
      | Inr devs' \<Rightarrow>
     (let d1 = with_member d ''devices'' devs'
      in case getitem d1 ''telemetry'' of
        Inl e \<Rightarrow> Inl e
      | Inr tel \<Rightarrow>
     (case setdefault_value float_repr tel device_id (JArr []) of
        Inl e \<Rightarrow> Inl e
      | Inr tel' \<Rightarrow>
     (let d2 = with_member d1 ''telemetry'' tel'
      in Inr (Some d2, d2)))))))"

definition register_device_any ::
  "(pyfloat \<Rightarrow> string) \<Rightarrow> json \<Rightarrow> json \<Rightarrow> string \<Rightarrow> datafile \<Rightarrow>
   (error + json) \<times> datafile" where
  "register_device_any float_repr device_id meta now fs =
     with_lock_write (register_device_mut_any float_repr device_id meta now) fs"

definition list_devices :: "datafile \<Rightarrow> (error + json) \<times> datafile" where
  "list_devices fs =
     (case with_lock_read fs of
        (Inl e, fs1) \<Rightarrow> (Inl e, fs1)
      | (Inr d, fs1) \<Rightarrow> (getitem d ''devices'', fs1))"

definition store_telemetry_mut :: "string \<Rightarrow> json \<Rightarrow> mutator" where
  "store_telemetry_mut device_id payload d =
     (case getitem d ''devices'' of
        Inl e \<Rightarrow> Inl e
      | Inr devs \<Rightarrow>
     (case contains devs device_id of
        Inl e \<Rightarrow> Inl e
      | Inr False \<Rightarrow> Inl KeyError
      | Inr True \<Rightarrow>
     (case getitem d ''telemetry'' of
        Inl e \<Rightarrow> Inl e
      | Inr tel \<Rightarrow>
     (case setdefault tel device_id (JArr []) of
        Inl e \<Rightarrow> Inl e
      | Inr tel1 \<Rightarrow>
     (case getitem tel1 device_id of
        Inl e \<Rightarrow> Inl e
      | Inr bucket \<Rightarrow>
     (case append_item bucket payload of
        Inl e \<Rightarrow> Inl e
      | Inr bucket' \<Rightarrow>
     (let d1 = with_member d ''telemetry'' (with_member tel1 device_id bucket')
      in Inr (Some d1, d1))))))))"

definition store_telemetry ::
  "string \<Rightarrow> json \<Rightarrow> datafile \<Rightarrow> (error + json) \<times> datafile" where
  "store_telemetry device_id payload fs =
     with_lock_write (store_telemetry_mut device_id payload) fs"

text \<open>
  \<^verbatim>\<open>dateutil.parser.isoparse\<close> is a library function: the model takes it as the
  parameter \<open>isoparse\<close>, \<open>None\<close> where it raises. It returns a \<^verbatim>\<open>datetime\<close>, which
  is naive (no UTC offset in the text) or aware; the number is the microseconds of the
  wall-clock time for a naive one and of the UTC instant for an aware one. Python orders
  two naive and two aware values, and raises \<^verbatim>\<open>TypeError\<close> when asked to order a naive
  and an aware one.
\<close>

datatype datetime = Naive int | Aware int

fun dt_less :: "datetime \<Rightarrow> datetime \<Rightarrow> error + bool" where
  "dt_less (Naive a) (Naive b) = Inr (a < b)"
| "dt_less (Aware a) (Aware b) = Inr (a < b)"
| "dt_less _ _ = Inl TypeError"

text \<open>\<^verbatim>\<open>to_dt\<close>: every exception is caught, and \<^verbatim>\<open>isoparse\<close> raises on what is not a
  text.\<close>

definition to_dt :: "(string \<Rightarrow> datetime option) \<Rightarrow> json \<Rightarrow> datetime option" where
  "to_dt isoparse s = (case s of JStr t \<Rightarrow> isoparse t | _ \<Rightarrow> None)"

text \<open>The loop over the items, with the list \<^verbatim>\<open>filtered\<close> built so far.\<close>

fun filter_loop ::
  "(string \<Rightarrow> datetime option) \<Rightarrow> datetime option \<Rightarrow> datetime option \<Rightarrow>
   json list \<Rightarrow> json list \<Rightarrow> error + json list" where
  "filter_loop isoparse s_dt e_dt [] filtered = Inr filtered"
| "filter_loop isoparse s_dt e_dt (it # items) filtered =
     (case dict_get it ''timestamp'' JNull of
        Inl e \<Rightarrow> Inl e
      | Inr ts \<Rightarrow>
     (case (if truthy ts then to_dt isoparse ts else None) of
        None \<Rightarrow> filter_loop isoparse s_dt e_dt items filtered
      | Some tdt \<Rightarrow>
     (case (case s_dt of None \<Rightarrow> Inr False | Some s \<Rightarrow> dt_less tdt s) of
        Inl e \<Rightarrow> Inl e
      | Inr True \<Rightarrow> filter_loop isoparse s_dt e_dt items filtered
      | Inr False \<Rightarrow>
     (case (case e_dt of None \<Rightarrow> Inr False | Some e \<Rightarrow> dt_less e tdt) of
        Inl e \<Rightarrow> Inl e
      | Inr True \<Rightarrow> filter_loop isoparse s_dt e_dt items filtered
      | Inr False \<Rightarrow> filter_loop isoparse s_dt e_dt items (filtered @ [it])))))"

text \<open>\<^verbatim>\<open>start_iso\<close> and \<^verbatim>\<open>end_iso\<close> are \<^verbatim>\<open>None\<close> or a text; an empty text is
  false, as \<^verbatim>\<open>None\<close> is.\<close>

definition given :: "string option \<Rightarrow> bool" where
  "given a = (case a of None \<Rightarrow> False | Some s \<Rightarrow> s \<noteq> [])"

definition bound_dt :: "(string \<Rightarrow> datetime option) \<Rightarrow> string option \<Rightarrow> datetime option" where
  "bound_dt isoparse a =
     (case a of None \<Rightarrow> None | Some s \<Rightarrow> if s \<noteq> [] then to_dt isoparse (JStr s) else None)"

definition get_telemetry ::
  "(string \<Rightarrow> datetime option) \<Rightarrow> string \<Rightarrow> string option \<Rightarrow> string option \<Rightarrow> int \<Rightarrow>
   datafile \<Rightarrow> (error + json) \<times> datafile" where
  "get_telemetry isoparse device_id start_iso end_iso limit fs =
     (case with_lock_read fs of
        (Inl e, fs1) \<Rightarrow> (Inl e, fs1)
      | (Inr d, fs1) \<Rightarrow>
     (case getitem d ''telemetry'' of
        Inl e \<Rightarrow> (Inl e, fs1)
      | Inr tel \<Rightarrow>
     (case contains tel device_id of
        Inl e \<Rightarrow> (Inl e, fs1)
      | Inr False \<Rightarrow> (Inr (JArr []), fs1)
      | Inr True \<Rightarrow>
     (case getitem tel device_id of
        Inl e \<Rightarrow> (Inl e, fs1)
      | Inr items \<Rightarrow>
          if given start_iso \<or> given end_iso then
            (case iterate items of
               Inl e \<Rightarrow> (Inl e, fs1)
             | Inr its \<Rightarrow>
            (case filter_loop isoparse (bound_dt isoparse start_iso)
                    (bound_dt isoparse end_iso) its [] of
               Inl e \<Rightarrow> (Inl e, fs1)
             | Inr filtered \<Rightarrow> (last_items (JArr filtered) limit, fs1)))
          else (last_items items limit, fs1)))))"

section \<open>app.py: the request handlers\<close>

text \<open>
  A handler returns a response (the body given to \<^verbatim>\<open>jsonify\<close> and the status code)
  or lets an exception escape, which the framework answers with status 500. The request
  body \<open>payload\<close> is the value \<^verbatim>\<open>request.get_json(force=True)\<close> returns.
\<close>

datatype response = Response json nat

text \<open>
  \<^verbatim>\<open>uuid4()\<close> draws a random 128-bit number \<open>u\<close>. Its \<^verbatim>\<open>hex\<close> attribute is the
  number in 32 hexadecimal digits, and \<^verbatim>\<open>str\<close> groups these digits 8-4-4-4-12.
\<close>

definition hex_digit :: "nat \<Rightarrow> char" where
  "hex_digit n = ''0123456789abcdef'' ! (n mod 16)"

definition uuid_hex :: "nat \<Rightarrow> string" where
  "uuid_hex u = map (\<lambda>i. hex_digit (u div 16 ^ (31 - i))) [0..<32]"

definition uuid_str :: "nat \<Rightarrow> string" where
  "uuid_str u =
     (let h = uuid_hex u
      in take 8 h @ ''-'' @ take 4 (drop 8 h) @ ''-'' @ take 4 (drop 12 h) @ ''-'' @
         take 4 (drop 16 h) @ ''-'' @ drop 20 h)"

text \<open>\<^verbatim>\<open>{"name": name, **meta}\<close>: the entries of \<open>meta\<close> are stored in their order over
  the first entry, so a \<^verbatim>\<open>name\<close> inside \<open>meta\<close> replaces the value; \<^verbatim>\<open>**\<close> wants
  a mapping.\<close>

fun spread :: "(string \<times> json) list \<Rightarrow> json \<Rightarrow> error + json" where
  "spread base (JObj m) = Inr (JObj (foldl (\<lambda>acc kv. AList.update (fst kv) (snd kv) acc) base m))"
| "spread base _ = Inl TypeError"

text \<open>
  \<open>u_id\<close> and \<open>u_key\<close> are the numbers drawn by the two \<^verbatim>\<open>uuid4()\<close> calls (the
  first is drawn only when the request gives no \<^verbatim>\<open>device_id\<close>, or a false one). The
  \<^verbatim>\<open>device_id\<close> goes to the store as the request gave it, whatever its type.
\<close>

definition app_register_device ::
  "(pyfloat \<Rightarrow> string) \<Rightarrow> string \<Rightarrow> nat \<Rightarrow> nat \<Rightarrow> json \<Rightarrow> datafile \<Rightarrow>
   (error + response) \<times> datafile" where
  "app_register_device float_repr now u_id u_key payload fs =
     (case dict_get payload ''device_id'' JNull of
        Inl e \<Rightarrow> (Inl e, fs)
      | Inr given_id \<Rightarrow>
     (let device_id = (if truthy given_id then given_id else JStr (uuid_str u_id))
      in case dict_get payload ''name'' (JStr []) of
        Inl e \<Rightarrow> (Inl e, fs)
      | Inr name \<Rightarrow>
     (case dict_get payload ''meta'' (JObj []) of
        Inl e \<Rightarrow> (Inl e, fs)
      | Inr meta \<Rightarrow>
     (let api_key = uuid_hex u_key
      in case setitem meta ''api_key'' (JStr api_key) of
        Inl e \<Rightarrow> (Inl e, fs)
      | Inr meta' \<Rightarrow>
     (case spread [(''name'', name)] meta' of
        Inl e \<Rightarrow> (Inl e, fs)
      | Inr stored_meta \<Rightarrow>
     (case register_device_any float_repr device_id stored_meta now fs of
        (Inl e, fs1) \<Rightarrow>
          if is_ValueError e
          then (Inr (Response (JObj [(''error'', JStr ''device already exists'')]) 409), fs1)
          else (Inl e, fs1)
      | (Inr d, fs1) \<Rightarrow>
          (Inr (Response (JObj [(''device_id'', device_id), (''api_key'', JStr api_key)]) 201),
           fs1)))))))"

definition app_list_devices :: "datafile \<Rightarrow> (error + response) \<times> datafile" where
  "app_list_devices fs =
     (case list_devices fs of
        (Inl e, fs1) \<Rightarrow> (Inl e, fs1)
      | (Inr devices, fs1) \<Rightarrow> (Inr (Response devices 200), fs1))"

text \<open>The \<^verbatim>\<open>X-API-KEY\<close> header as \<^verbatim>\<open>request.headers.get\<close> returns it: a text, or
  \<^verbatim>\<open>None\<close> when the request has no such header.\<close>

definition header_value :: "string option \<Rightarrow> json" where
  "header_value h = (case h of None \<Rightarrow> JNull | Some s \<Rightarrow> JStr s)"

text \<open>
  \<open>now\<close> is the text \<^verbatim>\<open>datetime.utcnow().isoformat()\<close> returns when the record is
  built. Once \<open>dev\<close> is true the \<open>device_id\<close> is one of the \<^verbatim>\<open>str\<close> keys, so the
  last case of the definition is never taken.
\<close>

definition telemetry_ingest ::
  "string \<Rightarrow> string option \<Rightarrow> json \<Rightarrow> datafile \<Rightarrow> (error + response) \<times> datafile" where
  "telemetry_ingest now api_key payload fs =
     (case dict_get payload ''device_id'' JNull of
        Inl e \<Rightarrow> (Inl e, fs)
      | Inr device_id \<Rightarrow>
     if \<not> truthy device_id
     then (Inr (Response (JObj [(''error'', JStr ''device_id required'')]) 400), fs)
     else
     (case list_devices fs of
        (Inl e, fs1) \<Rightarrow> (Inl e, fs1)
      | (Inr devices, fs1) \<Rightarrow>
     (case dict_get_key devices device_id of
        Inl e \<Rightarrow> (Inl e, fs1)
      | Inr dev \<Rightarrow>
     if \<not> truthy dev
     then (Inr (Response (JObj [(''error'', JStr ''unknown device'')]) 404), fs1)
     else
     (case getitem dev ''meta'' of
        Inl e \<Rightarrow> (Inl e, fs1)
      | Inr meta \<Rightarrow>
     (case dict_get meta ''api_key'' JNull of
        Inl e \<Rightarrow> (Inl e, fs1)
      | Inr expected_key \<Rightarrow>
     if truthy expected_key \<and> header_value api_key \<noteq> expected_key
     then (Inr (Response (JObj [(''error'', JStr ''invalid api key'')]) 401), fs1)
     else
     (case dict_get payload ''timestamp'' JNull of
        Inl e \<Rightarrow> (Inl e, fs1)
      | Inr ts \<Rightarrow>
     (case dict_get payload ''data'' (JObj []) of
        Inl e \<Rightarrow> (Inl e, fs1)
      | Inr data \<Rightarrow>
     (let telemetry = JObj [(''timestamp'', if truthy ts then ts else JStr (now @ ''Z'')),
                            (''data'', data)]
      in case device_id of
        JStr did \<Rightarrow>
          (case store_telemetry did telemetry fs1 of
             (Inl e, fs2) \<Rightarrow>
               if e = KeyError
               then (Inr (Response (JObj [(''error'', JStr ''unknown device'')]) 404), fs2)
               else (Inl e, fs2)
           | (Inr d, fs2) \<Rightarrow> (Inr (Response (JObj [(''status'', JStr ''ok'')]) 201), fs2))
      | _ \<Rightarrow> (Inl TypeError, fs1)))))))))"

text \<open>
  \<open>limit_arg\<close> is the \<^verbatim>\<open>limit\<close> query argument, \<open>None\<close> when the request has none;
  the text \<^verbatim>\<open>"100"\<close> then stands in, and \<^verbatim>\<open>int("100")\<close> is 100. Python's
  \<^verbatim>\<open>int\<close> on a text is the parameter \<open>py_int\<close>, \<open>None\<close> where it raises
  \<^verbatim>\<open>ValueError\<close>.
\<close>

definition telemetry_query ::
  "(string \<Rightarrow> datetime option) \<Rightarrow> (string \<Rightarrow> int option) \<Rightarrow> string \<Rightarrow>
   string option \<Rightarrow> string option \<Rightarrow> string option \<Rightarrow> datafile \<Rightarrow>
   (error + response) \<times> datafile" where
  "telemetry_query isoparse py_int device_id start end_arg limit_arg fs =
     (case (case limit_arg of None \<Rightarrow> Some 100 | Some s \<Rightarrow> py_int s) of
        None \<Rightarrow> (Inl ValueError, fs)
      | Some limit \<Rightarrow>
     (case get_telemetry isoparse device_id start end_arg limit fs of
        (Inl e, fs1) \<Rightarrow> (Inl e, fs1)
      | (Inr items, fs1) \<Rightarrow> (Inr (Response items 200), fs1)))"

section \<open>What the properties speak about\<close>

text \<open>
  The definitions of this section are not code of the repository: they name what the
  properties below say about it. First what a stored document \<open>d\<close> holds: the
  record of the device \<open>k\<close>, the telemetry sequence of \<open>k\<close>, and the records of
  that sequence (none when there is no sequence).
\<close>

definition device :: "json \<Rightarrow> string \<Rightarrow> json option" where
  "device d k = (case getitem d ''devices'' of Inr (JObj devs) \<Rightarrow> map_of devs k | _ \<Rightarrow> None)"

definition bucket :: "json \<Rightarrow> string \<Rightarrow> json option" where
  "bucket d k = (case getitem d ''telemetry'' of Inr (JObj tel) \<Rightarrow> map_of tel k | _ \<Rightarrow> None)"

definition bucket_items :: "json \<Rightarrow> string \<Rightarrow> json list" where
  "bucket_items d k = (case bucket d k of Some (JArr xs) \<Rightarrow> xs | _ \<Rightarrow> [])"

text \<open>
  The time filter. \<open>record_time\<close> is the \<^verbatim>\<open>datetime\<close> the loop reads from a record,
  \<open>None\<close> when the record has no true \<^verbatim>\<open>timestamp\<close> or it does not parse. Two
  values are of the \<open>same_kind\<close> when Python can order them, and then it orders them
  by their \<open>instant\<close>. A time is \<open>in_range\<close> when it is not before the start and not
  after the end, where they are given; a record is \<open>kept\<close> when it has a time and the
  time is in range.
\<close>

definition record_time :: "(string \<Rightarrow> datetime option) \<Rightarrow> json \<Rightarrow> datetime option" where
  "record_time isoparse it =
     (case dict_get it ''timestamp'' JNull of
        Inl e \<Rightarrow> None
      | Inr ts \<Rightarrow> if truthy ts then to_dt isoparse ts else None)"

fun same_kind :: "datetime \<Rightarrow> datetime \<Rightarrow> bool" where
  "same_kind (Naive a) (Naive b) = True"
| "same_kind (Aware a) (Aware b) = True"
| "same_kind _ _ = False"

fun instant :: "datetime \<Rightarrow> int" where
  "instant (Naive a) = a"
| "instant (Aware a) = a"

definition in_range :: "datetime option \<Rightarrow> datetime option \<Rightarrow> datetime \<Rightarrow> bool" where
  "in_range s_dt e_dt t =
     ((case s_dt of None \<Rightarrow> True | Some s \<Rightarrow> instant s \<le> instant t) \<and>
      (case e_dt of None \<Rightarrow> True | Some e \<Rightarrow> instant t \<le> instant e))"

definition kept :: "(string \<Rightarrow> datetime option) \<Rightarrow> datetime option \<Rightarrow> datetime option \<Rightarrow> json \<Rightarrow> bool" where
  "kept isoparse s_dt e_dt it =
     (case record_time isoparse it of None \<Rightarrow> False | Some t \<Rightarrow> in_range s_dt e_dt t)"

definition comparable :: "datetime option \<Rightarrow> datetime option \<Rightarrow> datetime \<Rightarrow> bool" where
  "comparable s_dt e_dt t =
     ((case s_dt of None \<Rightarrow> True | Some s \<Rightarrow> same_kind t s) \<and>
      (case e_dt of None \<Rightarrow> True | Some e \<Rightarrow> same_kind t e))"

text \<open>
  The calls that reach the store, with their arguments, and the file they leave behind;
  \<open>run\<close> makes a sequence of calls, one after the other.
\<close>

datatype call =
    Register string json string
  | Store string json
  | ListDevices
  | GetTelemetry string "string option" "string option" int
  | AppRegister string nat nat json
  | AppListDevices
  | Ingest string "string option" json
  | Query string "string option" "string option" "string option"

fun perform ::
  "(string \<Rightarrow> datetime option) \<Rightarrow> (string \<Rightarrow> int option) \<Rightarrow> (pyfloat \<Rightarrow> string) \<Rightarrow>
   call \<Rightarrow> datafile \<Rightarrow> datafile" where
  "perform isoparse py_int float_repr (Register device_id meta now) fs = snd (register_device device_id meta now fs)"
| "perform isoparse py_int float_repr (Store device_id payload) fs = snd (store_telemetry device_id payload fs)"
| "perform isoparse py_int float_repr ListDevices fs = snd (list_devices fs)"
| "perform isoparse py_int float_repr (GetTelemetry device_id start_iso end_iso limit) fs =
     snd (get_telemetry isoparse device_id start_iso end_iso limit fs)"
| "perform isoparse py_int float_repr (AppRegister now u_id u_key payload) fs =
     snd (app_register_device float_repr now u_id u_key payload fs)"
| "perform isoparse py_int float_repr AppListDevices fs = snd (app_list_devices fs)"
| "perform isoparse py_int float_repr (Ingest now api_key payload) fs = snd (telemetry_ingest now api_key payload fs)"
| "perform isoparse py_int float_repr (Query device_id start end_arg limit_arg) fs =
     snd (telemetry_query isoparse py_int device_id start end_arg limit_arg fs)"

definition run ::
  "(string \<Rightarrow> datetime option) \<Rightarrow> (string \<Rightarrow> int option) \<Rightarrow> (pyfloat \<Rightarrow> string) \<Rightarrow>
   call list \<Rightarrow> datafile \<Rightarrow> datafile" where
  "run isoparse py_int float_repr calls fs = foldl (\<lambda>s c. perform isoparse py_int float_repr c s) fs calls"

text \<open>
  The invariant of the store: the document has the two mappings, and every key of the
  telemetry mapping is a key of the devices mapping. A file that does not exist yet is
  fine (the first read creates it); a file that does not load is not.
\<close>

definition telemetry_keys_registered :: "json \<Rightarrow> bool" where
  "telemetry_keys_registered d =
     (case getitem d ''devices'' of
        Inr (JObj devs) \<Rightarrow>
          (case getitem d ''telemetry'' of
             Inr (JObj tel) \<Rightarrow> list_all (\<lambda>k. map_of devs k \<noteq> None) (map fst tel)
           | _ \<Rightarrow> False)
      | _ \<Rightarrow> False)"

definition store_ok :: "datafile \<Rightarrow> bool" where
  "store_ok fs =
     (case fs of None \<Rightarrow> True | Some (Raises e) \<Rightarrow> False
      | Some (Parsed d) \<Rightarrow> telemetry_keys_registered d)"

section \<open>Example values\<close>

text \<open>
  A device record, a store with the one device \<^verbatim>\<open>d1\<close>, and a telemetry record, used
  where a property is evaluated on a concrete input.
\<close>

abbreviation (input) ex_device :: "string \<Rightarrow> json" where
  "ex_device key \<equiv> JObj [(''meta'', JObj [(''name'', JStr ''x''), (''api_key'', JStr key)]),
                           (''registered_at'', JStr ''2024-05-01T00:00:00Z'')]"

abbreviation (input) ex_store :: "string \<Rightarrow> json list \<Rightarrow> json" where
  "ex_store key records \<equiv>
     JObj [(''devices'', JObj [(''d1'', ex_device key)]), (''telemetry'', JObj [(''d1'', JArr records)])]"

abbreviation (input) ex_record :: "string \<Rightarrow> int \<Rightarrow> json" where
  "ex_record ts n \<equiv> JObj [(''timestamp'', JStr ts), (''data'', JObj [(''t'', JInt n)])]"

section \<open>Facts about the Python operations and the store\<close>

lemma getitem_ok:
  "getitem d k = Inr v \<Longrightarrow> \<exists>kvs. d = JObj kvs \<and> map_of kvs k = Some v"
  by (cases d) (auto split: option.splits)

lemma setitem_ok:
  "setitem c k v = Inr c' \<Longrightarrow> \<exists>kvs. c = JObj kvs \<and> c' = JObj (AList.update k v kvs)"
  by (cases c) auto

lemma setdefault_ok:
  "setdefault c k v = Inr c' \<Longrightarrow>
     \<exists>kvs. c = JObj kvs \<and>
       c' = JObj (case map_of kvs k of None \<Rightarrow> kvs @ [(k, v)] | Some w \<Rightarrow> kvs)"
  by (cases c) auto

lemma append_item_ok:
  "append_item c v = Inr c' \<Longrightarrow> \<exists>xs. c = JArr xs \<and> c' = JArr (xs @ [v])"
  by (cases c) auto

lemma read_all_existing: "read_all (Some (Parsed j)) = (Inr j, Some (Parsed j))"
  by (simp add: read_all_def ensure_datafile_def)

lemma read_all_ok:
  "read_all fs = (Inr d, fs1) \<Longrightarrow>
     fs1 = Some (Parsed d) \<and> (fs = None \<and> d = initial \<or> fs = fs1)"
  by (auto simp: read_all_def ensure_datafile_def Let_def split: option.splits content.splits)

lemma snd_read_all: "snd (read_all fs) = ensure_datafile fs"
  by (auto simp: read_all_def Let_def split: option.splits content.splits)

lemma with_lock_write_ok:
  assumes "with_lock_write mutator_fn fs = (Inr d, fs1)"
  shows "\<exists>data r data'. read_all fs = (Inr data, Some (Parsed data)) \<and>
           mutator_fn data = Inr (r, data') \<and>
           d = (case r of Some x \<Rightarrow> x | None \<Rightarrow> data') \<and> fs1 = Some (Parsed d)"
  using assms unfolding with_lock_write_def
  by (auto simp: Let_def write_atomic_def split: prod.splits sum.splits dest: read_all_ok)

lemma list_devices_ok:
  assumes "list_devices fs = (Inr devices, fs1)"
  shows "\<exists>d. read_all fs = (Inr d, Some (Parsed d)) \<and> fs1 = Some (Parsed d) \<and>
             getitem d ''devices'' = Inr devices"
  using assms unfolding list_devices_def with_lock_read_def
  by (auto split: prod.splits sum.splits dest: read_all_ok)

lemma list_devices_existing:
  "list_devices (Some (Parsed d)) = (getitem d ''devices'', Some (Parsed d))"
  by (simp add: list_devices_def with_lock_read_def read_all_existing)


lemma bucket_SomeD:
  "bucket d k = Some v \<Longrightarrow>
     \<exists>tel. getitem d ''telemetry'' = Inr (JObj tel) \<and> map_of tel k = Some v"
  by (auto simp: bucket_def split: sum.splits json.splits)

lemma slice_from_last: "0 < limit \<Longrightarrow> slice_from (- limit) xs = drop (length xs - nat limit) xs"
  by (auto simp: slice_from_def Let_def max_def intro: arg_cong[where f="\<lambda>n. drop n xs"])


lemma upt_32:
  "[0..<32] = [0, 1, 2, 3, 4, 5, 6, 7, 8, 9, 10, 11, 12, 13, 14, 15, 16, 17, 18, 19, 20, 21, 22,
     23, 24, 25, 26, 27, 28, 29, 30, 31]"
  by (simp add: upt_rec)

lemma uuid_hex_255: "uuid_hex 255 = ''000000000000000000000000000000ff''"
  unfolding uuid_hex_def upt_32 by (simp add: hex_digit_def)







lemma tkr_iff:
  "telemetry_keys_registered d \<longleftrightarrow>
     (\<exists>devs tel. getitem d ''devices'' = Inr (JObj devs) \<and> getitem d ''telemetry'' = Inr (JObj tel) \<and>
        (\<forall>k. map_of tel k \<noteq> None \<longrightarrow> map_of devs k \<noteq> None))"
proof -
  have keys: "list_all (\<lambda>k. map_of devs k \<noteq> None) (map fst tel) \<longleftrightarrow>
      (\<forall>k. map_of tel k \<noteq> None \<longrightarrow> map_of devs k \<noteq> None)"
    for devs tel :: "(string \<times> json) list"
    by (simp add: list_all_iff map_of_eq_None_iff) blast
  show ?thesis
  proof (cases "getitem d ''devices''")
    case (Inl e)
    then show ?thesis by (simp add: telemetry_keys_registered_def)
  next
    case dv: (Inr dv)
    show ?thesis
    proof (cases "getitem d ''telemetry''")
      case (Inl e)
      with dv show ?thesis by (simp add: telemetry_keys_registered_def split: json.splits)
    next
      case tl: (Inr tl)
      from dv tl keys show ?thesis
        by (cases dv; cases tl) (simp_all add: telemetry_keys_registered_def)
    qed
  qed
qed

lemma initial_ok: "telemetry_keys_registered initial"
  by (simp add: telemetry_keys_registered_def initial_def)

lemma store_ok_ensure: "store_ok fs \<Longrightarrow> store_ok (ensure_datafile fs)"
  by (auto simp: store_ok_def ensure_datafile_def initial_ok split: option.splits)

lemmas store_defs = read_all_def ensure_datafile_def with_lock_read_def with_lock_write_def
  write_atomic_def list_devices_def store_telemetry_def store_telemetry_mut_def
  register_device_def register_device_mut_def initial_def Let_def

section \<open>Reading the store\<close>

text \<open>
  Claim C8, as the code has it. When the backing file does not exist, \<open>read_all\<close>
  first creates it with the document \<^verbatim>\<open>{"devices": {}, "telemetry": {}}\<close> and returns
  that document. When the file exists, \<open>read_all\<close> leaves it as it is and returns what
  reading and \<^verbatim>\<open>json.load\<close> make of its content: the loaded value, whatever its
  structure, or the exception they raise, as it is. And \<open>read_all\<close> raises in no other
  case: an exception \<open>x\<close> out of \<open>read_all\<close> is the one that loading the existing file
  raises. There is no check of the structure and no error of the store's own.
\<close>

theorem read_all_cases:
  "read_all None = (Inr initial, Some (Parsed initial)) \<and>
   read_all (Some (Raises e)) = (Inl e, Some (Raises e)) \<and>
   read_all (Some (Parsed j)) = (Inr j, Some (Parsed j)) \<and>
   (\<forall>x fs1. read_all fs = (Inl x, fs1) \<longrightarrow> fs = Some (Raises x) \<and> fs1 = fs)"
  by (auto simp: read_all_def ensure_datafile_def Let_def split: option.splits content.splits)

text \<open>
  The property at work: a file of bytes that are not UTF-8 text makes \<open>read_all\<close> raise
  \<^verbatim>\<open>UnicodeDecodeError\<close>, and stays.
\<close>

theorem read_all_cases_witness:
  "read_all (Some (Raises UnicodeDecodeError)) =
     (Inl UnicodeDecodeError, Some (Raises UnicodeDecodeError)) \<and>
   Some (Raises UnicodeDecodeError) = Some (Raises UnicodeDecodeError)"
proof -
  have r: "read_all (Some (Raises UnicodeDecodeError)) =
      (Inl UnicodeDecodeError, Some (Raises UnicodeDecodeError))"
    by (simp add: read_all_def ensure_datafile_def)
  from read_all_cases[of UnicodeDecodeError JNull "Some (Raises UnicodeDecodeError)"] r
  show ?thesis by blast
qed

text \<open>
  Claim C8 as it is stated fails: a file holding the JSON text \<^verbatim>\<open>[]\<close> exists and is
  not a document with the members \<^verbatim>\<open>devices\<close> and \<^verbatim>\<open>telemetry\<close>, and \<open>read_all\<close>
  returns the empty list without an error.
\<close>

theorem read_all_unexpected_structure:
  "read_all (Some (Parsed (JArr []))) = (Inr (JArr []), Some (Parsed (JArr [])))"
  by (simp add: read_all_def ensure_datafile_def)

section \<open>Registration\<close>

lemma register_device_mut_ok:
  assumes "register_device_mut device_id meta now d = Inr (r, d')"
  shows "r = Some d' \<and>
    (\<exists>devs. getitem d' ''devices'' = Inr devs \<and> contains devs device_id = Inr True)"
  using assms unfolding register_device_mut_def
  by (auto simp: Let_def update_conv' split: sum.splits bool.splits option.splits
      dest!: getitem_ok setitem_ok setdefault_ok)




text \<open>
  Claim C1. Whatever the state of the backing file, when \<open>register_device\<close> has
  succeeded for a \<open>device_id\<close>, a second call with the same \<open>device_id\<close> (and any
  \<open>meta\<close>, at any time) raises \<^verbatim>\<open>ValueError\<close>, the code's "device already exists"
  error, and the file after the failed call is the file before it: the mutator raises
  before \<open>write_atomic\<close> runs.
\<close>

theorem register_device_twice:
  assumes "register_device device_id meta1 now1 fs = (Inr d, fs1)"
  shows "register_device device_id meta2 now2 fs1 = (Inl ValueError, fs1)"
proof -
  from with_lock_write_ok[OF assms[unfolded register_device_def]]
  obtain data r d' where
    mu: "register_device_mut device_id meta1 now1 data = Inr (r, d')" and
    d: "d = (case r of Some x \<Rightarrow> x | None \<Rightarrow> d')" and
    fs1: "fs1 = Some (Parsed d)"
    by blast
  from register_device_mut_ok[OF mu] obtain devs where
    r: "r = Some d'" and
    g: "getitem d' ''devices'' = Inr devs" and
    c: "contains devs device_id = Inr True"
    by blast
  from fs1 d r have w: "fs1 = Some (Parsed d')" by simp
  have "register_device_mut device_id meta2 now2 d' = Inl ValueError"
    unfolding register_device_mut_def using g c by simp
  then show ?thesis
    unfolding register_device_def with_lock_write_def w read_all_existing by simp
qed

text \<open>
  The property at work: \<^verbatim>\<open>d1\<close> is registered in a fresh store, and registered
  again.
\<close>

theorem register_device_twice_witness:
  "register_device ''d1'' (JObj [(''name'', JStr ''x'')]) ''2024-01-01T00:00:00'' None =
     (Inr (JObj [(''devices'', JObj [(''d1'', JObj [(''meta'', JObj [(''name'', JStr ''x'')]),
                    (''registered_at'', JStr ''2024-01-01T00:00:00Z'')])]),
                 (''telemetry'', JObj [(''d1'', JArr [])])]),
      Some (Parsed (JObj [(''devices'', JObj [(''d1'', JObj [(''meta'', JObj [(''name'', JStr ''x'')]),
                    (''registered_at'', JStr ''2024-01-01T00:00:00Z'')])]),
                 (''telemetry'', JObj [(''d1'', JArr [])])]))) \<and>
   register_device ''d1'' (JObj []) ''2024-01-02T00:00:00''
     (Some (Parsed (JObj [(''devices'', JObj [(''d1'', JObj [(''meta'', JObj [(''name'', JStr ''x'')]),
                    (''registered_at'', JStr ''2024-01-01T00:00:00Z'')])]),
                 (''telemetry'', JObj [(''d1'', JArr [])])]))) =
     (Inl ValueError,
      Some (Parsed (JObj [(''devices'', JObj [(''d1'', JObj [(''meta'', JObj [(''name'', JStr ''x'')]),
                    (''registered_at'', JStr ''2024-01-01T00:00:00Z'')])]),
                 (''telemetry'', JObj [(''d1'', JArr [])])])))"
proof -
  have first: "register_device ''d1'' (JObj [(''name'', JStr ''x'')]) ''2024-01-01T00:00:00'' None =
     (Inr (JObj [(''devices'', JObj [(''d1'', JObj [(''meta'', JObj [(''name'', JStr ''x'')]),
                    (''registered_at'', JStr ''2024-01-01T00:00:00Z'')])]),
                 (''telemetry'', JObj [(''d1'', JArr [])])]),
      Some (Parsed (JObj [(''devices'', JObj [(''d1'', JObj [(''meta'', JObj [(''name'', JStr ''x'')]),
                    (''registered_at'', JStr ''2024-01-01T00:00:00Z'')])]),
                 (''telemetry'', JObj [(''d1'', JArr [])])])))"
    by (simp add: register_device_def with_lock_write_def read_all_def ensure_datafile_def
        initial_def register_device_mut_def write_atomic_def Let_def)
  from register_device_twice[OF first] first show ?thesis by simp
qed





text \<open>
  A \<^verbatim>\<open>device_id\<close> that is not a string, which the specification does not provide
  for, is registered all the same, under the text \<^verbatim>\<open>json.dump\<close> writes for it: the
  number 5 takes the place of the registered device \<^verbatim>\<open>5\<close>, whose telemetry is
  replaced by the empty sequence.
\<close>

lemma app_register_device_number_id:
  "app_register_device (\<lambda>f. []) ''2024-05-02T00:00:00'' 1 255 (JObj [(''device_id'', JInt 5)])
     (Some (Parsed (JObj [(''devices'', JObj [(''5'', ex_device ''k1'')]),
        (''telemetry'', JObj [(''5'', JArr [ex_record ''2024-05-01T12:00:00Z'' 1])])]))) =
   (Inr (Response (JObj [(''device_id'', JInt 5),
                         (''api_key'', JStr ''000000000000000000000000000000ff'')]) 201),
    Some (Parsed (JObj [(''devices'', JObj [(''5'',
            JObj [(''meta'', JObj [(''name'', JStr []),
                                   (''api_key'', JStr ''000000000000000000000000000000ff'')]),
                  (''registered_at'', JStr ''2024-05-02T00:00:00Z'')])]),
        (''telemetry'', JObj [(''5'', JArr [])])])))"
  by (simp add: app_register_device_def register_device_any_def register_device_mut_any_def
      store_defs dec_int_def digit_char_def uuid_hex_255)


section \<open>Ingesting telemetry\<close>

lemma store_telemetry_mut_ok:
  assumes "store_telemetry_mut did p d = Inr (r, d')"
  shows "r = Some d' \<and> getitem d' ''devices'' = getitem d ''devices'' \<and>
         (\<exists>devs. getitem d ''devices'' = Inr devs \<and> contains devs did = Inr True) \<and>
         bucket d' did = Some (JArr (bucket_items d did @ [p])) \<and>
         (\<forall>k. k \<noteq> did \<longrightarrow> bucket d' k = bucket d k)"
  using assms unfolding store_telemetry_mut_def bucket_def bucket_items_def
  by (auto simp: Let_def update_conv' map_add_def split: sum.splits bool.splits option.splits
      dest!: getitem_ok setdefault_ok append_item_ok)

lemma store_telemetry_ok:
  assumes "store_telemetry did p (Some (Parsed d)) = (Inr r, fs2)"
  shows "\<exists>d2. fs2 = Some (Parsed d2) \<and> store_telemetry_mut did p d = Inr (Some d2, d2)"
proof -
  from with_lock_write_ok[OF assms[unfolded store_telemetry_def]]
  obtain r' data' where
    mu: "store_telemetry_mut did p d = Inr (r', data')" and
    fs2: "fs2 = Some (Parsed (case r' of Some x \<Rightarrow> x | None \<Rightarrow> data'))"
    by (auto simp: read_all_existing)
  from store_telemetry_mut_ok[OF mu] have "r' = Some data'" by simp
  with mu fs2 show ?thesis by simp
qed

lemma store_telemetry_mut_runs:
  assumes "getitem d ''devices'' = Inr (JObj devs)" and "map_of devs did \<noteq> None"
    and "getitem d ''telemetry'' = Inr (JObj tel)"
    and "map_of tel did = None \<or> (\<exists>xs. map_of tel did = Some (JArr xs))"
  shows "\<exists>d2. store_telemetry_mut did p d = Inr (Some d2, d2)"
  using assms unfolding store_telemetry_mut_def
  by (auto simp: Let_def update_conv' map_add_def split: option.splits)

lemma store_telemetry_existing:
  "store_telemetry did p (Some (Parsed d)) =
     (case store_telemetry_mut did p d of
        Inl e \<Rightarrow> (Inl e, Some (Parsed d))
      | Inr (r, d') \<Rightarrow> (Inr (case r of Some x \<Rightarrow> x | None \<Rightarrow> d'),
                       Some (Parsed (case r of Some x \<Rightarrow> x | None \<Rightarrow> d'))))"
  by (simp add: store_telemetry_def with_lock_write_def read_all_existing write_atomic_def Let_def
      split: sum.splits prod.splits)

lemma get_telemetry_unfiltered:
  assumes "bucket d did = Some items"
  shows "get_telemetry isoparse did None None limit (Some (Parsed d)) =
           (last_items items limit, Some (Parsed d))"
  using assms unfolding get_telemetry_def with_lock_read_def read_all_existing bucket_def given_def
  by (auto split: sum.splits json.splits option.splits dest!: getitem_ok)

text \<open>
  Claim C2. For every call of the handler \<open>telemetry_ingest\<close> with a request body that
  is a mapping:
  \<^item> a \<^verbatim>\<open>device_id\<close> that is absent or false (the empty text among others) is answered
    with status 400, "device_id required", and the store is not touched;
  \<^item> a \<^verbatim>\<open>device_id\<close> that is not a key of the devices mapping is answered with status
    404, "unknown device", whatever the API key of the request is;
  \<^item> for a registered device whose \<^verbatim>\<open>meta\<close> holds a true (non-empty) \<^verbatim>\<open>api_key\<close>
    different from the one of the request (or when the request has none), the answer is
    status 401, "invalid api key";
  \<^item> for a registered device whose \<^verbatim>\<open>meta\<close> holds no \<^verbatim>\<open>api_key\<close> or a false (empty)
    one, the key of the request is not looked at: whatever it is, the record is appended
    to the device's telemetry sequence and the answer is status 201.
\<close>

theorem telemetry_ingest_checks:
  "(\<forall>g. dict_get payload ''device_id'' JNull = Inr g \<and> \<not> truthy g \<longrightarrow>
      telemetry_ingest now api_key payload fs =
        (Inr (Response (JObj [(''error'', JStr ''device_id required'')]) 400), fs)) \<and>
   (\<forall>did devs fs1.
      dict_get payload ''device_id'' JNull = Inr (JStr did) \<and> did \<noteq> [] \<and>
      list_devices fs = (Inr (JObj devs), fs1) \<and> map_of devs did = None \<longrightarrow>
      telemetry_ingest now api_key payload fs =
        (Inr (Response (JObj [(''error'', JStr ''unknown device'')]) 404), fs1)) \<and>
   (\<forall>did devs fs1 dev meta k.
      dict_get payload ''device_id'' JNull = Inr (JStr did) \<and> did \<noteq> [] \<and>
      list_devices fs = (Inr (JObj devs), fs1) \<and> map_of devs did = Some dev \<and>
      getitem dev ''meta'' = Inr meta \<and> dict_get meta ''api_key'' JNull = Inr k \<and>
      truthy k \<and> header_value api_key \<noteq> k \<longrightarrow>
      telemetry_ingest now api_key payload fs =
        (Inr (Response (JObj [(''error'', JStr ''invalid api key'')]) 401), fs1)) \<and>
   (\<forall>did devs d dev meta k tel t0 data.
      dict_get payload ''device_id'' JNull = Inr (JStr did) \<and> did \<noteq> [] \<and>
      list_devices fs = (Inr (JObj devs), Some (Parsed d)) \<and> map_of devs did = Some dev \<and>
      getitem dev ''meta'' = Inr meta \<and> dict_get meta ''api_key'' JNull = Inr k \<and>
      \<not> truthy k \<and>
      getitem d ''telemetry'' = Inr (JObj tel) \<and>
      (map_of tel did = None \<or> (\<exists>xs. map_of tel did = Some (JArr xs))) \<and>
      dict_get payload ''timestamp'' JNull = Inr t0 \<and>
      dict_get payload ''data'' (JObj []) = Inr data \<longrightarrow>
      (\<exists>d2. telemetry_ingest now api_key payload fs =
              (Inr (Response (JObj [(''status'', JStr ''ok'')]) 201), Some (Parsed d2)) \<and>
            bucket d2 did = Some (JArr (bucket_items d did @
              [JObj [(''timestamp'', if truthy t0 then t0 else JStr (now @ ''Z'')),
                     (''data'', data)]]))))"
proof (intro conjI allI impI)
  fix g
  assume "dict_get payload ''device_id'' JNull = Inr g \<and> \<not> truthy g"
  then show "telemetry_ingest now api_key payload fs =
        (Inr (Response (JObj [(''error'', JStr ''device_id required'')]) 400), fs)"
    by (simp add: telemetry_ingest_def)
next
  fix did devs fs1
  assume "dict_get payload ''device_id'' JNull = Inr (JStr did) \<and> did \<noteq> [] \<and>
      list_devices fs = (Inr (JObj devs), fs1) \<and> map_of devs did = None"
  then show "telemetry_ingest now api_key payload fs =
        (Inr (Response (JObj [(''error'', JStr ''unknown device'')]) 404), fs1)"
    by (simp add: telemetry_ingest_def)
next
  fix did devs fs1 dev meta k
  assume a: "dict_get payload ''device_id'' JNull = Inr (JStr did) \<and> did \<noteq> [] \<and>
      list_devices fs = (Inr (JObj devs), fs1) \<and> map_of devs did = Some dev \<and>
      getitem dev ''meta'' = Inr meta \<and> dict_get meta ''api_key'' JNull = Inr k \<and>
      truthy k \<and> header_value api_key \<noteq> k"
  then have "truthy dev" by (auto dest!: getitem_ok)
  with a show "telemetry_ingest now api_key payload fs =
        (Inr (Response (JObj [(''error'', JStr ''invalid api key'')]) 401), fs1)"
    by (simp add: telemetry_ingest_def)
next
  fix did devs d dev meta k tel t0 data
  assume a: "dict_get payload ''device_id'' JNull = Inr (JStr did) \<and> did \<noteq> [] \<and>
      list_devices fs = (Inr (JObj devs), Some (Parsed d)) \<and> map_of devs did = Some dev \<and>
      getitem dev ''meta'' = Inr meta \<and> dict_get meta ''api_key'' JNull = Inr k \<and>
      \<not> truthy k \<and>
      getitem d ''telemetry'' = Inr (JObj tel) \<and>
      (map_of tel did = None \<or> (\<exists>xs. map_of tel did = Some (JArr xs))) \<and>
      dict_get payload ''timestamp'' JNull = Inr t0 \<and>
      dict_get payload ''data'' (JObj []) = Inr data"
  let ?item = "JObj [(''timestamp'', if truthy t0 then t0 else JStr (now @ ''Z'')), (''data'', data)]"
  from a have dev: "truthy dev" by (auto dest!: getitem_ok)
  from a list_devices_ok[of fs "JObj devs" "Some (Parsed d)"]
  have gd: "getitem d ''devices'' = Inr (JObj devs)" by auto
  from store_telemetry_mut_runs[OF gd, of did tel ?item] a
  obtain d2 where mu: "store_telemetry_mut did ?item d = Inr (Some d2, d2)" by auto
  have "telemetry_ingest now api_key payload fs =
              (Inr (Response (JObj [(''status'', JStr ''ok'')]) 201), Some (Parsed d2))"
    using a dev mu by (simp add: telemetry_ingest_def store_telemetry_existing)
  moreover have "bucket d2 did = Some (JArr (bucket_items d did @ [?item]))"
    using store_telemetry_mut_ok[OF mu] by simp
  ultimately show "\<exists>d2. telemetry_ingest now api_key payload fs =
              (Inr (Response (JObj [(''status'', JStr ''ok'')]) 201), Some (Parsed d2)) \<and>
            bucket d2 did = Some (JArr (bucket_items d did @ [?item]))"
    by blast
qed

text \<open>
  The four cases at work, the last one on a device whose stored key is the empty
  text and a request without a key.
\<close>

theorem telemetry_ingest_checks_witness:
  "telemetry_ingest ''2024-05-01T12:00:00'' (Some ''k1'') (JObj [(''data'', JObj [])])
       (Some (Parsed (ex_store ''k1'' []))) =
     (Inr (Response (JObj [(''error'', JStr ''device_id required'')]) 400),
      Some (Parsed (ex_store ''k1'' []))) \<and>
   telemetry_ingest ''2024-05-01T12:00:00'' (Some ''k1'') (JObj [(''device_id'', JStr ''ghost'')])
       (Some (Parsed (ex_store ''k1'' []))) =
     (Inr (Response (JObj [(''error'', JStr ''unknown device'')]) 404),
      Some (Parsed (ex_store ''k1'' []))) \<and>
   telemetry_ingest ''2024-05-01T12:00:00'' (Some ''wrong'') (JObj [(''device_id'', JStr ''d1'')])
       (Some (Parsed (ex_store ''k1'' []))) =
     (Inr (Response (JObj [(''error'', JStr ''invalid api key'')]) 401),
      Some (Parsed (ex_store ''k1'' []))) \<and>
   telemetry_ingest ''2024-05-01T12:00:00'' None (JObj [(''device_id'', JStr ''d1'')])
       (Some (Parsed (ex_store [] []))) =
     (Inr (Response (JObj [(''status'', JStr ''ok'')]) 201),
      Some (Parsed (ex_store [] [JObj [(''timestamp'', JStr ''2024-05-01T12:00:00Z''),
                                       (''data'', JObj [])]])))"
proof -
  let ?now = "''2024-05-01T12:00:00''"
  let ?fs = "Some (Parsed (ex_store ''k1'' []))"
  have ld: "list_devices ?fs = (Inr (JObj [(''d1'', ex_device ''k1'')]), ?fs)"
    by (simp add: list_devices_existing)
  have c1: "telemetry_ingest ?now (Some ''k1'') (JObj [(''data'', JObj [])]) ?fs =
      (Inr (Response (JObj [(''error'', JStr ''device_id required'')]) 400), ?fs)"
    using telemetry_ingest_checks[of "JObj [(''data'', JObj [])]" ?now "Some ''k1''" ?fs,
        THEN conjunct1, rule_format, of JNull]
    by simp
  have c2: "telemetry_ingest ?now (Some ''k1'') (JObj [(''device_id'', JStr ''ghost'')]) ?fs =
      (Inr (Response (JObj [(''error'', JStr ''unknown device'')]) 404), ?fs)"
    using telemetry_ingest_checks[of "JObj [(''device_id'', JStr ''ghost'')]" ?now "Some ''k1''" ?fs,
        THEN conjunct2, THEN conjunct1, rule_format,
        of "''ghost''" "[(''d1'', ex_device ''k1'')]" ?fs] ld
    by simp
  have c3: "telemetry_ingest ?now (Some ''wrong'') (JObj [(''device_id'', JStr ''d1'')]) ?fs =
      (Inr (Response (JObj [(''error'', JStr ''invalid api key'')]) 401), ?fs)"
    using telemetry_ingest_checks[of "JObj [(''device_id'', JStr ''d1'')]" ?now "Some ''wrong''" ?fs,
        THEN conjunct2, THEN conjunct2, THEN conjunct1, rule_format,
        of "''d1''" "[(''d1'', ex_device ''k1'')]" ?fs "ex_device ''k1''"
           "JObj [(''name'', JStr ''x''), (''api_key'', JStr ''k1'')]" "JStr ''k1''"] ld
    by (simp add: header_value_def)
  let ?open = "Some (Parsed (ex_store [] []))"
  have lo: "list_devices ?open = (Inr (JObj [(''d1'', ex_device [])]), ?open)"
    by (simp add: list_devices_existing)
  from telemetry_ingest_checks[of "JObj [(''device_id'', JStr ''d1'')]" ?now None ?open,
        THEN conjunct2, THEN conjunct2, THEN conjunct2, rule_format,
        of "''d1''" "[(''d1'', ex_device [])]" "ex_store [] []" "ex_device []"
           "JObj [(''name'', JStr ''x''), (''api_key'', JStr [])]" "JStr []"
           "[(''d1'', JArr [])]" JNull "JObj []"] lo
  obtain d2 where
    "telemetry_ingest ?now None (JObj [(''device_id'', JStr ''d1'')]) ?open =
       (Inr (Response (JObj [(''status'', JStr ''ok'')]) 201), Some (Parsed d2))"
    by auto
  moreover have "snd (telemetry_ingest ?now None (JObj [(''device_id'', JStr ''d1'')]) ?open) =
      Some (Parsed (ex_store [] [JObj [(''timestamp'', JStr ''2024-05-01T12:00:00Z''),
                                       (''data'', JObj [])]]))"
    by (simp add: telemetry_ingest_def header_value_def store_defs)
  ultimately have c4: "telemetry_ingest ?now None (JObj [(''device_id'', JStr ''d1'')]) ?open =
     (Inr (Response (JObj [(''status'', JStr ''ok'')]) 201),
      Some (Parsed (ex_store [] [JObj [(''timestamp'', JStr ''2024-05-01T12:00:00Z''),
                                       (''data'', JObj [])]])))"
    by simp
  from c1 c2 c3 c4 show ?thesis by simp
qed

text \<open>
  Claim C6. When \<open>telemetry_ingest\<close> answers with status 201, the store afterwards
  holds, for the device \<open>did\<close> of the request, the telemetry sequence it held before
  followed by exactly one new record; the record's \<^verbatim>\<open>timestamp\<close> is the one of the
  request, or the current UTC time followed by \<^verbatim>\<open>Z\<close> when the request has none (or a
  false one), and its \<^verbatim>\<open>data\<close> is the one of the request, or the empty mapping when
  the request has none; every other telemetry sequence and the devices are unchanged; and
  when the device had no record before, \<open>get_telemetry\<close> with no bounds and the default
  limit 100 then returns the sequence of that one record.
\<close>

theorem telemetry_ingest_appends:
  assumes ok: "telemetry_ingest now api_key payload fs = (Inr (Response body 201), fs2)"
  shows "\<exists>did t0 data d d2 record.
           dict_get payload ''device_id'' JNull = Inr (JStr did) \<and>
           dict_get payload ''timestamp'' JNull = Inr t0 \<and>
           dict_get payload ''data'' (JObj []) = Inr data \<and>
           record = JObj [(''timestamp'', if truthy t0 then t0 else JStr (now @ ''Z'')),
                          (''data'', data)] \<and>
           read_all fs = (Inr d, Some (Parsed d)) \<and> fs2 = Some (Parsed d2) \<and>
           bucket d2 did = Some (JArr (bucket_items d did @ [record])) \<and>
           (\<forall>k. k \<noteq> did \<longrightarrow> bucket d2 k = bucket d k) \<and>
           getitem d2 ''devices'' = getitem d ''devices'' \<and>
           (bucket_items d did = [] \<longrightarrow>
              get_telemetry isoparse did None None 100 fs2 = (Inr (JArr [record]), fs2))"
proof -
  from ok obtain did t0 data devices fs1 r where
    a: "dict_get payload ''device_id'' JNull = Inr (JStr did)"
       "dict_get payload ''timestamp'' JNull = Inr t0"
       "dict_get payload ''data'' (JObj []) = Inr data" and
    ld: "list_devices fs = (Inr devices, fs1)" and
    st: "store_telemetry did (JObj [(''timestamp'', if truthy t0 then t0 else JStr (now @ ''Z'')),
                          (''data'', data)]) fs1 = (Inr r, fs2)"
    unfolding telemetry_ingest_def
    by (auto simp: Let_def split: sum.splits prod.splits if_splits json.splits)
  let ?item = "JObj [(''timestamp'', if truthy t0 then t0 else JStr (now @ ''Z'')), (''data'', data)]"
  from list_devices_ok[OF ld] obtain d where
    rd: "read_all fs = (Inr d, Some (Parsed d))" and fs1: "fs1 = Some (Parsed d)"
    by blast
  from store_telemetry_ok[OF st[unfolded fs1]] obtain d2 where
    fs2: "fs2 = Some (Parsed d2)" and mu: "store_telemetry_mut did ?item d = Inr (Some d2, d2)"
    by blast
  note m = store_telemetry_mut_ok[OF mu]
  have q: "bucket_items d did = [] \<longrightarrow>
      get_telemetry isoparse did None None 100 fs2 = (Inr (JArr [?item]), fs2)"
    using m get_telemetry_unfiltered[of d2 did "JArr [?item]" isoparse 100] fs2
    by (auto simp: slice_from_def)
  from a rd fs2 m q show ?thesis by blast
qed

text \<open>
  The property at work: one record for \<^verbatim>\<open>d1\<close>, sent without a timestamp, and the
  query that follows.
\<close>

theorem telemetry_ingest_appends_witness:
  "telemetry_ingest ''2024-05-01T12:00:00.123456'' (Some ''k1'')
       (JObj [(''device_id'', JStr ''d1''), (''data'', JObj [(''t'', JInt 1)])])
       (Some (Parsed (ex_store ''k1'' []))) =
     (Inr (Response (JObj [(''status'', JStr ''ok'')]) 201),
      Some (Parsed (ex_store ''k1'' [ex_record ''2024-05-01T12:00:00.123456Z'' 1]))) \<and>
   get_telemetry (\<lambda>s. None) ''d1'' None None 100
       (Some (Parsed (ex_store ''k1'' [ex_record ''2024-05-01T12:00:00.123456Z'' 1]))) =
     (Inr (JArr [ex_record ''2024-05-01T12:00:00.123456Z'' 1]),
      Some (Parsed (ex_store ''k1'' [ex_record ''2024-05-01T12:00:00.123456Z'' 1])))"
proof -
  have ingest: "telemetry_ingest ''2024-05-01T12:00:00.123456'' (Some ''k1'')
       (JObj [(''device_id'', JStr ''d1''), (''data'', JObj [(''t'', JInt 1)])])
       (Some (Parsed (ex_store ''k1'' []))) =
     (Inr (Response (JObj [(''status'', JStr ''ok'')]) 201),
      Some (Parsed (ex_store ''k1'' [ex_record ''2024-05-01T12:00:00.123456Z'' 1])))"
    by (simp add: telemetry_ingest_def header_value_def store_defs)
  have empty: "bucket_items (ex_store ''k1'' []) ''d1'' = []"
    by (simp add: bucket_items_def bucket_def)
  from telemetry_ingest_appends[OF ingest, of "\<lambda>s. None"] obtain did t0 data d d2 stored where
    f: "dict_get (JObj [(''device_id'', JStr ''d1''), (''data'', JObj [(''t'', JInt 1)])])
          ''device_id'' JNull = Inr (JStr did)"
       "dict_get (JObj [(''device_id'', JStr ''d1''), (''data'', JObj [(''t'', JInt 1)])])
          ''timestamp'' JNull = Inr t0"
       "dict_get (JObj [(''device_id'', JStr ''d1''), (''data'', JObj [(''t'', JInt 1)])])
          ''data'' (JObj []) = Inr data"
       "stored = JObj [(''timestamp'', if truthy t0 then t0 else JStr (''2024-05-01T12:00:00.123456'' @ ''Z'')),
                       (''data'', data)]"
       "read_all (Some (Parsed (ex_store ''k1'' []))) = (Inr d, Some (Parsed d))"
       "bucket_items d did = [] \<longrightarrow>
          get_telemetry (\<lambda>s. None) did None None 100
            (Some (Parsed (ex_store ''k1'' [ex_record ''2024-05-01T12:00:00.123456Z'' 1]))) =
          (Inr (JArr [stored]), Some (Parsed (ex_store ''k1'' [ex_record ''2024-05-01T12:00:00.123456Z'' 1])))"
    by blast
  from f(1) have did: "did = ''d1''" by simp
  from f(2) have t0: "t0 = JNull" by simp
  from f(3) have data: "data = JObj [(''t'', JInt 1)]" by simp
  from f(5) have d: "d = ex_store ''k1'' []" by (simp add: read_all_existing)
  from f(6) empty have "get_telemetry (\<lambda>s. None) ''d1'' None None 100
            (Some (Parsed (ex_store ''k1'' [ex_record ''2024-05-01T12:00:00.123456Z'' 1]))) =
          (Inr (JArr [stored]), Some (Parsed (ex_store ''k1'' [ex_record ''2024-05-01T12:00:00.123456Z'' 1])))"
    unfolding did d by simp
  with f(4) t0 data ingest show ?thesis by simp
qed

section \<open>Querying telemetry\<close>

lemma get_telemetry_bucket:
  assumes "read_all fs = (Inr d, fs1)" and "bucket d did = Some items"
  shows "get_telemetry isoparse did start_iso end_iso limit fs =
     (if given start_iso \<or> given end_iso then
        (case iterate items of
           Inl e \<Rightarrow> (Inl e, fs1)
         | Inr its \<Rightarrow>
             (case filter_loop isoparse (bound_dt isoparse start_iso) (bound_dt isoparse end_iso) its [] of
                Inl e \<Rightarrow> (Inl e, fs1)
              | Inr filtered \<Rightarrow> (last_items (JArr filtered) limit, fs1)))
      else (last_items items limit, fs1))"
  using assms(1) bucket_SomeD[OF assms(2)]
  unfolding get_telemetry_def with_lock_read_def
  by auto

text \<open>
  Claim C7. When the telemetry mapping of the stored document has no sequence for a
  \<open>device_id\<close>, \<open>get_telemetry\<close> returns the empty list and raises nothing, for all
  bounds and every limit; and it returns the same for a device whose sequence is empty,
  so the two cannot be told apart.
\<close>

theorem get_telemetry_no_bucket:
  assumes "read_all fs = (Inr d, fs1)"
    and "getitem d ''telemetry'' = Inr (JObj tel)"
    and "map_of tel did = None \<or> map_of tel did = Some (JArr [])"
  shows "get_telemetry isoparse did start_iso end_iso limit fs = (Inr (JArr []), fs1)"
  using assms unfolding get_telemetry_def with_lock_read_def
  by (auto simp: slice_from_def)

text \<open>
  The property at work: a query with a start bound for a device nobody registered,
  before the backing file even exists.
\<close>

theorem get_telemetry_no_bucket_witness:
  "get_telemetry (\<lambda>s. None) ''ghost'' (Some ''2024-05-01T00:00:00Z'') None 5 None =
     (Inr (JArr []), Some (Parsed initial))"
  using get_telemetry_no_bucket[of None initial "Some (Parsed initial)" "[]" "''ghost''"]
  by (simp add: read_all_def ensure_datafile_def initial_def)

text \<open>
  Claim C4, as the code has it. Let the store hold the sequence \<open>items\<close> for the
  device, and let \<open>limit\<close> be positive. Without bounds \<open>get_telemetry\<close> returns the last
  \<open>limit\<close> records of \<open>items\<close> (all of them when there are fewer), in their order; with
  bounds it returns the last \<open>limit\<close> of the records the filter loop has kept, in their
  order. The handler \<open>telemetry_query\<close> answers with what \<open>get_telemetry\<close> returns for
  the number its \<^verbatim>\<open>limit\<close> argument stands for; without the argument it behaves as
  with one that stands for 100; and an argument that is not a number raises
  \<^verbatim>\<open>ValueError\<close> before the store is read. The code has no check of the sign of
  \<open>limit\<close>: what a limit that is not positive returns is left open here.
\<close>

theorem get_telemetry_positive_limit:
  assumes rd: "read_all fs = (Inr d, fs1)"
    and b: "bucket d did = Some (JArr items)"
    and pos: "0 < limit"
  shows "(\<not> given start_iso \<and> \<not> given end_iso \<longrightarrow>
            get_telemetry isoparse did start_iso end_iso limit fs =
              (Inr (JArr (drop (length items - nat limit) items)), fs1)) \<and>
         (\<forall>matching.
            (given start_iso \<or> given end_iso) \<and>
            filter_loop isoparse (bound_dt isoparse start_iso) (bound_dt isoparse end_iso) items [] =
              Inr matching \<longrightarrow>
            get_telemetry isoparse did start_iso end_iso limit fs =
              (Inr (JArr (drop (length matching - nat limit) matching)), fs1)) \<and>
         (\<forall>s. py_int s = Some limit \<longrightarrow>
            fst (telemetry_query isoparse py_int did start_iso end_iso (Some s) fs) =
              map_sum id (\<lambda>r. Response r 200)
                (fst (get_telemetry isoparse did start_iso end_iso limit fs))) \<and>
         (\<forall>s. py_int s = Some 100 \<longrightarrow>
            telemetry_query isoparse py_int did start_iso end_iso None fs =
            telemetry_query isoparse py_int did start_iso end_iso (Some s) fs) \<and>
         (\<forall>s. py_int s = None \<longrightarrow>
            telemetry_query isoparse py_int did start_iso end_iso (Some s) fs = (Inl ValueError, fs))"
proof (intro conjI allI impI)
  assume "\<not> given start_iso \<and> \<not> given end_iso"
  then show "get_telemetry isoparse did start_iso end_iso limit fs =
      (Inr (JArr (drop (length items - nat limit) items)), fs1)"
    using pos unfolding get_telemetry_bucket[OF rd b] by (simp add: slice_from_last)
next
  fix matching
  assume "(given start_iso \<or> given end_iso) \<and>
    filter_loop isoparse (bound_dt isoparse start_iso) (bound_dt isoparse end_iso) items [] =
      Inr matching"
  then show "get_telemetry isoparse did start_iso end_iso limit fs =
      (Inr (JArr (drop (length matching - nat limit) matching)), fs1)"
    using pos unfolding get_telemetry_bucket[OF rd b] by (auto simp: slice_from_last)
next
  fix s
  assume "py_int s = Some limit"
  then show "fst (telemetry_query isoparse py_int did start_iso end_iso (Some s) fs) =
      map_sum id (\<lambda>r. Response r 200) (fst (get_telemetry isoparse did start_iso end_iso limit fs))"
    by (simp add: telemetry_query_def split: prod.splits sum.splits)
next
  fix s
  assume "py_int s = Some 100"
  then show "telemetry_query isoparse py_int did start_iso end_iso None fs =
      telemetry_query isoparse py_int did start_iso end_iso (Some s) fs"
    by (simp add: telemetry_query_def)
next
  fix s
  assume "py_int s = None"
  then show "telemetry_query isoparse py_int did start_iso end_iso (Some s) fs = (Inl ValueError, fs)"
    by (simp add: telemetry_query_def)
qed

text \<open>
  The property at work: limit 2 on a device with five records returns the two most
  recent ones, the older first.
\<close>

theorem get_telemetry_positive_limit_witness:
  "get_telemetry (\<lambda>s. None) ''d1'' None None 2
     (Some (Parsed (ex_store ''k1'' [ex_record ''t1'' 1, ex_record ''t2'' 2, ex_record ''t3'' 3,
        ex_record ''t4'' 4, ex_record ''t5'' 5]))) =
   (Inr (JArr [ex_record ''t4'' 4, ex_record ''t5'' 5]),
    Some (Parsed (ex_store ''k1'' [ex_record ''t1'' 1, ex_record ''t2'' 2, ex_record ''t3'' 3,
        ex_record ''t4'' 4, ex_record ''t5'' 5])))"
proof -
  let ?items = "[ex_record ''t1'' 1, ex_record ''t2'' 2, ex_record ''t3'' 3,
        ex_record ''t4'' 4, ex_record ''t5'' 5]"
  have rd: "read_all (Some (Parsed (ex_store ''k1'' ?items))) =
      (Inr (ex_store ''k1'' ?items), Some (Parsed (ex_store ''k1'' ?items)))"
    by (simp add: read_all_existing)
  have bk: "bucket (ex_store ''k1'' ?items) ''d1'' = Some (JArr ?items)"
    by (simp add: bucket_def)
  have pos: "(0::int) < 2" by simp
  from get_telemetry_positive_limit[OF rd bk pos, of None None "\<lambda>s. None" "\<lambda>s. None", THEN conjunct1]
  show ?thesis by (simp add: given_def)
qed

text \<open>
  Claim C4 as it is stated fails: a limit that is not positive is neither refused nor
  replaced by the default. With the limit -1, \<^verbatim>\<open>items[1:]\<close> is returned: on a device
  with two records that is the second one alone, not an error, and not the two records
  the default limit 100 returns.
\<close>

theorem get_telemetry_negative_limit:
  "get_telemetry (\<lambda>s. None) ''d1'' None None (- 1)
     (Some (Parsed (ex_store ''k1'' [ex_record ''t1'' 1, ex_record ''t2'' 2]))) =
   (Inr (JArr [ex_record ''t2'' 2]),
    Some (Parsed (ex_store ''k1'' [ex_record ''t1'' 1, ex_record ''t2'' 2]))) \<and>
   get_telemetry (\<lambda>s. None) ''d1'' None None 100
     (Some (Parsed (ex_store ''k1'' [ex_record ''t1'' 1, ex_record ''t2'' 2]))) =
   (Inr (JArr [ex_record ''t1'' 1, ex_record ''t2'' 2]),
    Some (Parsed (ex_store ''k1'' [ex_record ''t1'' 1, ex_record ''t2'' 2])))"
  by (simp add: get_telemetry_def with_lock_read_def read_all_existing given_def slice_from_def)

subsection \<open>Filtering by time\<close>

lemma dt_less_same_kind: "same_kind a b \<Longrightarrow> dt_less a b = Inr (instant a < instant b)"
  by (cases a; cases b) simp_all

lemma same_kind_sym: "same_kind a b \<Longrightarrow> same_kind b a"
  by (cases a; cases b) simp_all

lemma filter_loop_record:
  "filter_loop isoparse s_dt e_dt (JObj kvs # items) filtered =
     (case record_time isoparse (JObj kvs) of
        None \<Rightarrow> filter_loop isoparse s_dt e_dt items filtered
      | Some tdt \<Rightarrow>
     (case (case s_dt of None \<Rightarrow> Inr False | Some s \<Rightarrow> dt_less tdt s) of
        Inl e \<Rightarrow> Inl e
      | Inr True \<Rightarrow> filter_loop isoparse s_dt e_dt items filtered
      | Inr False \<Rightarrow>
     (case (case e_dt of None \<Rightarrow> Inr False | Some e \<Rightarrow> dt_less e tdt) of
        Inl e \<Rightarrow> Inl e
      | Inr True \<Rightarrow> filter_loop isoparse s_dt e_dt items filtered
      | Inr False \<Rightarrow> filter_loop isoparse s_dt e_dt items (filtered @ [JObj kvs]))))"
  by (simp add: record_time_def)

lemma filter_loop_comparable:
  assumes "\<forall>it\<in>set items. \<exists>kvs. it = JObj kvs"
    and "\<forall>it\<in>set items. \<forall>t. record_time isoparse it = Some t \<longrightarrow> comparable s_dt e_dt t"
  shows "filter_loop isoparse s_dt e_dt items filtered =
           Inr (filtered @ filter (kept isoparse s_dt e_dt) items)"
  using assms
proof (induction items arbitrary: filtered)
  case Nil
  then show ?case by simp
next
  case (Cons it items)
  from Cons.prems(1) obtain kvs where it: "it = JObj kvs" by auto
  have rest: "filter_loop isoparse s_dt e_dt items acc =
      Inr (acc @ filter (kept isoparse s_dt e_dt) items)" for acc
    using Cons.IH[of acc] Cons.prems by simp
  show ?case
  proof (cases "record_time isoparse it")
    case None
    then have "\<not> kept isoparse s_dt e_dt it" by (simp add: kept_def)
    with None rest show ?thesis
      unfolding it filter_loop_record by simp
  next
    case (Some t)
    with Cons.prems(2) have c: "comparable s_dt e_dt t" by simp
    have k: "kept isoparse s_dt e_dt it = in_range s_dt e_dt t"
      using Some by (simp add: kept_def)
    have lo: "(case s_dt of None \<Rightarrow> Inr False | Some s \<Rightarrow> dt_less t s) =
        Inr (case s_dt of None \<Rightarrow> False | Some s \<Rightarrow> instant t < instant s)"
      using c by (cases s_dt) (simp_all add: comparable_def dt_less_same_kind)
    have hi: "(case e_dt of None \<Rightarrow> Inr False | Some e \<Rightarrow> dt_less e t) =
        Inr (case e_dt of None \<Rightarrow> False | Some e \<Rightarrow> instant e < instant t)"
      using c by (cases e_dt) (simp_all add: comparable_def dt_less_same_kind same_kind_sym)
    have r: "in_range s_dt e_dt t \<longleftrightarrow>
        \<not> (case s_dt of None \<Rightarrow> False | Some s \<Rightarrow> instant t < instant s) \<and>
        \<not> (case e_dt of None \<Rightarrow> False | Some e \<Rightarrow> instant e < instant t)"
      by (auto simp: in_range_def split: option.splits)
    have step: "filter_loop isoparse s_dt e_dt (JObj kvs # items) filtered =
        (if in_range s_dt e_dt t
         then filter_loop isoparse s_dt e_dt items (filtered @ [JObj kvs])
         else filter_loop isoparse s_dt e_dt items filtered)"
      unfolding filter_loop_record using Some[unfolded it]
      by (simp add: lo hi r split: bool.splits)
    show ?thesis
      unfolding it step using k[unfolded it] rest by simp
  qed
qed

text \<open>
  What the time filter does where Python can order every parsed timestamp against the
  parsed bounds (all of them naive, or all of them aware), on a sequence of records that
  are mappings: a record is kept exactly when its timestamp parses and lies within the
  bounds, both ends included (a bound that is absent, empty or not parsable does not
  restrict), and the records kept are in their order of arrival. A query without bounds
  excludes nothing.
\<close>

lemma get_telemetry_time_filter:
  assumes rd: "read_all fs = (Inr d, fs1)"
    and bk: "bucket d did = Some (JArr items)"
    and flt: "given start_iso \<or> given end_iso"
    and recs: "\<forall>it\<in>set items. \<exists>kvs. it = JObj kvs"
    and cmp: "\<forall>it\<in>set items. \<forall>t. record_time isoparse it = Some t \<longrightarrow>
                comparable (bound_dt isoparse start_iso) (bound_dt isoparse end_iso) t"
  shows "get_telemetry isoparse did start_iso end_iso limit fs =
           (Inr (JArr (slice_from (- limit)
              (filter (kept isoparse (bound_dt isoparse start_iso) (bound_dt isoparse end_iso))
                 items))), fs1)"
  unfolding get_telemetry_bucket[OF rd bk]
  using flt filter_loop_comparable[OF recs cmp, of "[]"] by auto

lemma get_telemetry_no_filter:
  assumes rd: "read_all fs = (Inr d, fs1)"
    and bk: "bucket d did = Some (JArr items)"
    and flt: "\<not> given start_iso" "\<not> given end_iso"
  shows "get_telemetry isoparse did start_iso end_iso limit fs =
           (Inr (JArr (slice_from (- limit) items)), fs1)"
  unfolding get_telemetry_bucket[OF rd bk] using flt by simp

text \<open>
  Claim C3 does not hold of the code for every stored sequence and every query with a
  bound: where the timestamp of a stored record parses to an aware \<^verbatim>\<open>datetime\<close> (a text
  with a UTC offset, such as the \<^verbatim>\<open>Z\<close>-suffixed timestamps the server generates) and
  the start bound parses to a naive one (a text without an offset), the comparison
  \<^verbatim>\<open>tdt < s_dt\<close> raises \<^verbatim>\<open>TypeError\<close> outside of any \<^verbatim>\<open>try\<close>, and
  \<open>get_telemetry\<close> returns no records at all.
\<close>

theorem get_telemetry_mixed_offsets:
  assumes rd: "read_all fs = (Inr d, fs1)"
    and bk: "bucket d did = Some (JArr (it # rest))"
    and ts: "dict_get it ''timestamp'' JNull = Inr (JStr ts)" "ts \<noteq> []"
            "isoparse ts = Some (Aware a)"
    and st: "start \<noteq> []" "isoparse start = Some (Naive b)"
  shows "get_telemetry isoparse did (Some start) end_iso limit fs = (Inl TypeError, fs1)"
  unfolding get_telemetry_bucket[OF rd bk]
  using ts st by (simp add: given_def bound_dt_def to_dt_def)

text \<open>
  The failing input: the store holds one record for \<^verbatim>\<open>d1\<close> with a timestamp the
  server generated, and the query gives the start bound \<^verbatim>\<open>2024-05-01T00:00:00\<close>. The
  parser maps the two texts as \<^verbatim>\<open>isoparse\<close> does (microseconds since 1970).
\<close>

theorem get_telemetry_mixed_offsets_witness:
  "get_telemetry
     (\<lambda>s. if s = ''2024-05-01T12:00:00.123456Z'' then Some (Aware 1714564800123456)
          else if s = ''2024-05-01T00:00:00'' then Some (Naive 1714521600000000) else None)
     ''d1'' (Some ''2024-05-01T00:00:00'') None 100
     (Some (Parsed (ex_store ''k1'' [ex_record ''2024-05-01T12:00:00.123456Z'' 1]))) =
   (Inl TypeError, Some (Parsed (ex_store ''k1'' [ex_record ''2024-05-01T12:00:00.123456Z'' 1])))"
  by (rule get_telemetry_mixed_offsets[where d = "ex_store ''k1'' [ex_record ''2024-05-01T12:00:00.123456Z'' 1]"
        and it = "ex_record ''2024-05-01T12:00:00.123456Z'' 1" and rest = "[]"
        and ts = "''2024-05-01T12:00:00.123456Z''" and a = 1714564800123456
        and b = 1714521600000000])
     (simp_all add: read_all_existing bucket_def)

section \<open>The keys of the telemetry mapping\<close>

lemma register_device_mut_inv:
  assumes "register_device_mut did meta now d = Inr (r, d')" and "telemetry_keys_registered d"
  shows "telemetry_keys_registered d' \<and> r = Some d'"
  using assms unfolding register_device_mut_def tkr_iff
  by (auto simp: Let_def update_conv' map_add_def split: sum.splits bool.splits option.splits if_splits
      dest!: getitem_ok setitem_ok setdefault_ok)

lemma store_telemetry_mut_inv:
  assumes "store_telemetry_mut did p d = Inr (r, d')" and "telemetry_keys_registered d"
  shows "telemetry_keys_registered d' \<and> r = Some d'"
  using assms unfolding store_telemetry_mut_def tkr_iff
  by (auto simp: Let_def update_conv' map_add_def split: sum.splits bool.splits option.splits if_splits
      dest!: getitem_ok setitem_ok setdefault_ok append_item_ok)

lemma with_lock_write_inv:
  assumes inv: "store_ok fs"
    and mut: "\<And>d r d'. telemetry_keys_registered d \<Longrightarrow> mutator_fn d = Inr (r, d') \<Longrightarrow>
                 telemetry_keys_registered d' \<and> r = Some d'"
  shows "store_ok (snd (with_lock_write mutator_fn fs))"
proof (cases "read_all fs")
  case (Pair res fs1)
  have fs1: "fs1 = ensure_datafile fs" using snd_read_all[of fs] Pair by simp
  show ?thesis
  proof (cases res)
    case (Inl e)
    with Pair fs1 inv show ?thesis by (simp add: with_lock_write_def store_ok_ensure)
  next
    case (Inr data)
    with Pair read_all_ok[of fs data fs1] have p: "fs1 = Some (Parsed data)" by simp
    from store_ok_ensure[OF inv] have "store_ok (Some (Parsed data))"
      using fs1 p by simp
    then have td: "telemetry_keys_registered data"
      by (simp add: store_ok_def)
    show ?thesis
    proof (cases "mutator_fn data")
      case (Inl e)
      with Pair Inr fs1 inv show ?thesis by (simp add: with_lock_write_def store_ok_ensure)
    next
      case r: (Inr res')
      obtain r' d' where res': "res' = (r', d')" by (cases res')
      from mut[OF td r[unfolded res']] Pair Inr r res' show ?thesis
        by (simp add: with_lock_write_def write_atomic_def store_ok_def)
    qed
  qed
qed

lemma register_device_inv: "store_ok fs \<Longrightarrow> store_ok (snd (register_device did meta now fs))"
  unfolding register_device_def
  by (rule with_lock_write_inv) (auto dest: register_device_mut_inv)

lemma store_telemetry_inv: "store_ok fs \<Longrightarrow> store_ok (snd (store_telemetry did p fs))"
  unfolding store_telemetry_def
  by (rule with_lock_write_inv) (auto dest: store_telemetry_mut_inv)

lemma snd_list_devices: "snd (list_devices fs) = ensure_datafile fs"
  using snd_read_all[of fs]
  by (auto simp: list_devices_def with_lock_read_def split: prod.splits sum.splits)

lemma snd_get_telemetry: "snd (get_telemetry isoparse did s e limit fs) = ensure_datafile fs"
  using snd_read_all[of fs]
  by (auto simp: get_telemetry_def with_lock_read_def split: prod.splits sum.splits bool.splits)

lemma snd_app_list_devices: "snd (app_list_devices fs) = ensure_datafile fs"
  using snd_list_devices[of fs]
  by (auto simp: app_list_devices_def split: prod.splits sum.splits)

lemma list_devices_inv: "list_devices fs = (r, fs1) \<Longrightarrow> store_ok fs \<Longrightarrow> store_ok fs1"
  using snd_list_devices[of fs] by (simp add: store_ok_ensure)

lemma get_telemetry_inv:
  "get_telemetry isoparse did s e limit fs = (r, fs1) \<Longrightarrow> store_ok fs \<Longrightarrow> store_ok fs1"
  using snd_get_telemetry[of isoparse did s e limit fs] by (simp add: store_ok_ensure)

lemma store_telemetry_result_inv: "store_telemetry did p fs = (r, fs1) \<Longrightarrow> store_ok fs \<Longrightarrow> store_ok fs1"
  using store_telemetry_inv[of fs did p] by simp

lemma register_device_result_inv: "register_device did meta now fs = (r, fs1) \<Longrightarrow> store_ok fs \<Longrightarrow> store_ok fs1"
  using register_device_inv[of fs did meta now] by simp

lemma telemetry_query_inv:
  "store_ok fs \<Longrightarrow> store_ok (snd (telemetry_query isoparse py_int did s e l fs))"
  unfolding telemetry_query_def
  by (auto split: prod.splits sum.splits option.splits dest: get_telemetry_inv)

lemma setitem_value_obj:
  "setitem_value float_repr (JObj kvs) x v = Inr c' \<Longrightarrow>
     \<exists>k. key_text float_repr x = Some k \<and> c' = JObj (AList.update k v kvs)"
  by (auto split: option.splits)

lemma setdefault_value_obj:
  "setdefault_value float_repr (JObj kvs) x v = Inr c' \<Longrightarrow>
     \<exists>k. key_text float_repr x = Some k \<and>
       (c' = JObj (AList.update k v kvs) \<or>
        c' = JObj (case map_of kvs k of None \<Rightarrow> kvs @ [(k, v)] | Some w \<Rightarrow> kvs))"
  by (cases x) (auto split: option.splits)

lemma register_device_mut_any_inv:
  assumes mu: "register_device_mut_any float_repr x meta now d = Inr (r, d')"
    and inv: "telemetry_keys_registered d"
  shows "telemetry_keys_registered d' \<and> r = Some d'"
proof -
  from inv obtain devs tel where
    gd: "getitem d ''devices'' = Inr (JObj devs)" and
    gt: "getitem d ''telemetry'' = Inr (JObj tel)" and
    sub: "\<forall>k. map_of tel k \<noteq> None \<longrightarrow> map_of devs k \<noteq> None"
    unfolding tkr_iff by blast
  from gd obtain kvs where d: "d = JObj kvs" by (auto dest: getitem_ok)
  let ?rec = "JObj [(''meta'', meta), (''registered_at'', JStr (now @ ''Z''))]"
  from mu gd obtain devs' where
    si: "setitem_value float_repr (JObj devs) x ?rec = Inr devs'"
    unfolding register_device_mut_any_def
    by (auto split: sum.splits bool.splits)
  from setitem_value_obj[OF si] obtain k where
    k: "key_text float_repr x = Some k" and devs': "devs' = JObj (AList.update k ?rec devs)"
    by blast
  have gt1: "getitem (with_member d ''devices'' devs') ''telemetry'' = Inr (JObj tel)"
    using gt by (simp add: d update_conv')
  from mu gd si gt1 obtain tel' where
    sd: "setdefault_value float_repr (JObj tel) x (JArr []) = Inr tel'" and
    d': "d' = with_member (with_member d ''devices'' devs') ''telemetry'' tel'" and
    r: "r = Some d'"
    unfolding register_device_mut_any_def
    by (auto simp: Let_def split: sum.splits bool.splits)
  from setdefault_value_obj[OF sd] k have
    tel': "tel' = JObj (AList.update k (JArr []) tel) \<or>
           tel' = JObj (case map_of tel k of None \<Rightarrow> tel @ [(k, JArr [])] | Some w \<Rightarrow> tel)"
    by simp
  have "getitem d' ''devices'' = Inr (JObj (AList.update k ?rec devs))"
    by (simp add: d' d devs' update_conv')
  moreover have "getitem d' ''telemetry'' = Inr tel'"
    by (simp add: d' d update_conv')
  moreover have "\<forall>j. (case tel' of JObj t \<Rightarrow> map_of t j \<noteq> None | _ \<Rightarrow> False) \<longrightarrow>
      map_of (AList.update k ?rec devs) j \<noteq> None"
    using tel' sub by (auto simp: update_conv' map_add_def split: option.splits if_splits)
  ultimately have "telemetry_keys_registered d'"
    unfolding tkr_iff using tel' by auto
  with r show ?thesis by simp
qed

lemma register_device_any_inv:
  "store_ok fs \<Longrightarrow> store_ok (snd (register_device_any float_repr x meta now fs))"
  unfolding register_device_any_def
  by (rule with_lock_write_inv) (auto dest: register_device_mut_any_inv)

lemma register_device_any_result_inv:
  "register_device_any float_repr x meta now fs = (r, fs1) \<Longrightarrow> store_ok fs \<Longrightarrow> store_ok fs1"
  using register_device_any_inv[of fs float_repr x meta now] by simp

lemma app_register_device_inv:
  "store_ok fs \<Longrightarrow> store_ok (snd (app_register_device float_repr now u_id u_key payload fs))"
  unfolding app_register_device_def
  by (auto simp: Let_def split: sum.splits prod.splits dest: register_device_any_result_inv)

lemma telemetry_ingest_inv:
  "store_ok fs \<Longrightarrow> store_ok (snd (telemetry_ingest now api_key payload fs))"
  unfolding telemetry_ingest_def
  by (auto simp: Let_def split: sum.splits prod.splits json.splits
      dest: list_devices_inv store_telemetry_result_inv)

lemma perform_inv: "store_ok fs \<Longrightarrow> store_ok (perform isoparse py_int float_repr c fs)"
  by (cases c)
    (simp_all add: register_device_inv store_telemetry_inv snd_list_devices snd_get_telemetry
      snd_app_list_devices store_ok_ensure telemetry_query_inv app_register_device_inv
      telemetry_ingest_inv)

lemma run_inv: "store_ok fs \<Longrightarrow> store_ok (run isoparse py_int float_repr calls fs)"
  unfolding run_def by (induction calls arbitrary: fs) (simp_all add: perform_inv)

text \<open>
  Claim C9. Start with no backing file, or with one that holds the initial document,
  and make any sequence of calls of the store's functions and of the handlers. When the
  file then holds a document, its \<^verbatim>\<open>devices\<close> and \<^verbatim>\<open>telemetry\<close> members are
  mappings, and every key of the telemetry mapping, whether its sequence is empty or not,
  is a key of the devices mapping.
\<close>

theorem telemetry_keys_are_devices:
  assumes "fs0 = None \<or> fs0 = Some (Parsed initial)"
    and "run isoparse py_int float_repr calls fs0 = Some (Parsed d)"
  shows "\<exists>devs tel. getitem d ''devices'' = Inr (JObj devs) \<and>
           getitem d ''telemetry'' = Inr (JObj tel) \<and> fst ` set tel \<subseteq> fst ` set devs"
proof -
  from assms(1) have "store_ok fs0" by (auto simp: store_ok_def initial_ok)
  from run_inv[OF this, of isoparse py_int float_repr calls] assms(2)
  have "telemetry_keys_registered d" by (simp add: store_ok_def)
  then obtain devs tel where
    g: "getitem d ''devices'' = Inr (JObj devs)" "getitem d ''telemetry'' = Inr (JObj tel)" and
    k: "\<forall>k. map_of tel k \<noteq> None \<longrightarrow> map_of devs k \<noteq> None"
    unfolding tkr_iff by blast
  from k have "fst ` set tel \<subseteq> fst ` set devs"
    unfolding map_of_eq_None_iff by blast
  with g show ?thesis by blast
qed

text \<open>
  The property at work: a registration followed by one stored record.
\<close>

theorem telemetry_keys_are_devices_witness:
  "run (\<lambda>s. None) (\<lambda>s. None) (\<lambda>f. [])
     [Register ''d1'' (JObj [(''name'', JStr ''x''), (''api_key'', JStr ''k1'')]) ''2024-05-01T00:00:00'',
      Store ''d1'' (ex_record ''2024-05-01T12:00:00.123456Z'' 1)] None =
     Some (Parsed (ex_store ''k1'' [ex_record ''2024-05-01T12:00:00.123456Z'' 1])) \<and>
   fst ` set [(''d1'', JArr [ex_record ''2024-05-01T12:00:00.123456Z'' 1])] \<subseteq>
   fst ` set [(''d1'', ex_device ''k1'')]"
proof -
  have r: "run (\<lambda>s. None) (\<lambda>s. None) (\<lambda>f. [])
     [Register ''d1'' (JObj [(''name'', JStr ''x''), (''api_key'', JStr ''k1'')]) ''2024-05-01T00:00:00'',
      Store ''d1'' (ex_record ''2024-05-01T12:00:00.123456Z'' 1)] None =
     Some (Parsed (ex_store ''k1'' [ex_record ''2024-05-01T12:00:00.123456Z'' 1]))"
    by (simp add: run_def store_defs)
  from telemetry_keys_are_devices[OF _ r] obtain devs tel where
    "getitem (ex_store ''k1'' [ex_record ''2024-05-01T12:00:00.123456Z'' 1]) ''devices'' = Inr (JObj devs)"
    "getitem (ex_store ''k1'' [ex_record ''2024-05-01T12:00:00.123456Z'' 1]) ''telemetry'' = Inr (JObj tel)"
    "fst ` set tel \<subseteq> fst ` set devs"
    by blast
  then have "fst ` set [(''d1'', JArr [ex_record ''2024-05-01T12:00:00.123456Z'' 1])] \<subseteq>
      fst ` set [(''d1'', ex_device ''k1'')]"
    by simp
  with r show ?thesis by simp
qed

end
